theory Spec2Isabelle
  imports Complex_Main
begin

section \<open>Errors raised by the Python code\<close>

text \<open>
  Every exception the modelled code can raise is a value of this type. A function that may
  raise returns \<open>error + 'a\<close> (\<open>Inl\<close> the exception); a method that mutates its object
  before it raises returns the state it leaves behind together with the exception.
\<close>

datatype error =
    ZeroDivisionError
  | TypeError
  | ValueError
  | AttributeError
  | StopIteration

section \<open>Tensors\<close>

text \<open>
  The tensor runtime (mlx) is an external library. Its arrays are modelled as two-dimensional
  arrays of reals with an explicit shape, so that a shape with a zero dimension keeps its
  other dimension. Arithmetic is exact: dtypes, casts (\<open>astype\<close>) and rounding are not
  modelled, and leading batch dimensions are taken as flattened into the rows.
  Every operation builds its result with \<open>mk\<close> from an index formula; a shape mismatch is
  the \<open>ValueError\<close> the library raises.
\<close>

datatype tensor = Tensor (nrows: nat) (ncols: nat) (rows: "real list list")

definition mk :: "nat \<Rightarrow> nat \<Rightarrow> (nat \<Rightarrow> nat \<Rightarrow> real) \<Rightarrow> tensor" where
  "mk r c f = Tensor r c (map (\<lambda>i. map (f i) [0..<c]) [0..<r])"

definition entry :: "tensor \<Rightarrow> nat \<Rightarrow> nat \<Rightarrow> real" where
  "entry t i j = rows t ! i ! j"

definition well_shaped :: "tensor \<Rightarrow> bool" where
  "well_shaped t \<longleftrightarrow>
     length (rows t) = nrows t \<and> list_all (\<lambda>row. length row = ncols t) (rows t)"

definition zeros :: "nat \<Rightarrow> nat \<Rightarrow> tensor" where
  "zeros r c = mk r c (\<lambda>i j. 0)"

text \<open>\<open>a @ b\<close>: the inner dimensions must agree.\<close>

definition matmul :: "tensor \<Rightarrow> tensor \<Rightarrow> error + tensor" where
  "matmul a b =
     (if ncols a = nrows b
      then Inr (mk (nrows a) (ncols b) (\<lambda>i j. \<Sum>k\<leftarrow>[0..<ncols a]. entry a i k * entry b k j))
      else Inl ValueError)"

definition transpose_t :: "tensor \<Rightarrow> tensor" where
  "transpose_t a = mk (ncols a) (nrows a) (\<lambda>i j. entry a j i)"

definition tensor_scale :: "real \<Rightarrow> tensor \<Rightarrow> tensor" where
  "tensor_scale s a = mk (nrows a) (ncols a) (\<lambda>i j. s * entry a i j)"

text \<open>
  \<open>a + b\<close> broadcasts: two dimensions are compatible when they are equal or one of them
  is 1, and the dimension of size 1 is read at index 0.
\<close>

definition broadcast_dim :: "nat \<Rightarrow> nat \<Rightarrow> nat option" where
  "broadcast_dim m n =
     (if m = n then Some m else if m = 1 then Some n else if n = 1 then Some m else None)"

definition broadcast_index :: "nat \<Rightarrow> nat \<Rightarrow> nat" where
  "broadcast_index d i = (if d = 1 then 0 else i)"

definition tensor_add :: "tensor \<Rightarrow> tensor \<Rightarrow> error + tensor" where
  "tensor_add a b =
     (case (broadcast_dim (nrows a) (nrows b), broadcast_dim (ncols a) (ncols b)) of
        (Some r, Some c) \<Rightarrow>
          Inr (mk r c (\<lambda>i j.
                 entry a (broadcast_index (nrows a) i) (broadcast_index (ncols a) j)
               + entry b (broadcast_index (nrows b) i) (broadcast_index (ncols b) j)))
      | _ \<Rightarrow> Inl ValueError)"

text \<open>
  \<open>mx.random.uniform(low, high, shape)\<close>: the underlying draws \<open>u i j\<close> (in \<open>[0, 1)\<close>) are a
  parameter of the model.
\<close>

definition uniform :: "(nat \<Rightarrow> nat \<Rightarrow> real) \<Rightarrow> real \<Rightarrow> real \<Rightarrow> nat \<Rightarrow> nat \<Rightarrow> tensor" where
  "uniform u low high r c = mk r c (\<lambda>i j. low + (high - low) * u i j)"

section \<open>Layers of the external library\<close>

text \<open>
  \<open>nn.Linear\<close> holds a weight of shape \<open>(output_dims, input_dims)\<close> and an optional bias (a
  vector, kept as a tensor with one row). \<open>nn.QuantizedLinear\<close> holds the packed weight with
  its scales and biases, the group size and the bit width. The quantization kernels
  \<open>mx.quantize\<close> and \<open>mx.dequantize\<close> are parameters of the model.
\<close>

record linear =
  weight :: tensor
  bias :: "tensor option"

record quantized_linear =
  qweight :: tensor
  scales :: tensor
  biases :: tensor
  group_size :: int
  bits :: int
  qbias :: "tensor option"

datatype base_layer = Linear linear | QuantizedLinear quantized_linear

record mlx =
  mx_quantize :: "tensor \<Rightarrow> int \<Rightarrow> int \<Rightarrow> error + tensor \<times> tensor \<times> tensor"
  mx_dequantize :: "tensor \<Rightarrow> tensor \<Rightarrow> tensor \<Rightarrow> int \<Rightarrow> int \<Rightarrow> error + tensor"
  draws :: "nat \<Rightarrow> nat \<Rightarrow> real"

text \<open>
  The constructor \<open>nn.Linear(input_dims, output_dims, bias)\<close> draws its weight and bias
  uniformly in \<open>[-s, s]\<close> with \<open>s = sqrt (1 / input_dims)\<close>; it divides by \<open>input_dims\<close>.
\<close>

definition nn_Linear :: "mlx \<Rightarrow> int \<Rightarrow> int \<Rightarrow> bool \<Rightarrow> error + linear" where
  "nn_Linear ext input_dims output_dims has_bias =
     (if input_dims = 0 then Inl ZeroDivisionError
      else if input_dims < 0 \<or> output_dims < 0 then Inl ValueError
      else
        let s = sqrt (1 / real_of_int input_dims) in
        Inr \<lparr>weight = uniform (draws ext) (- s) s (nat output_dims) (nat input_dims),
             bias = (if has_bias then Some (uniform (draws ext) (- s) s 1 (nat output_dims))
                     else None)\<rparr>)"

definition Linear_call :: "linear \<Rightarrow> tensor \<Rightarrow> error + tensor" where
  "Linear_call lin x =
     (case matmul x (transpose_t (weight lin)) of
        Inl e \<Rightarrow> Inl e
      | Inr y \<Rightarrow> (case bias lin of None \<Rightarrow> Inr y | Some b \<Rightarrow> tensor_add y b))"

definition QuantizedLinear_from_linear ::
    "mlx \<Rightarrow> linear \<Rightarrow> int \<Rightarrow> int \<Rightarrow> error + quantized_linear" where
  "QuantizedLinear_from_linear ext lin gs b =
     (case mx_quantize ext (weight lin) gs b of
        Inl e \<Rightarrow> Inl e
      | Inr (w, s, bi) \<Rightarrow>
          Inr \<lparr>qweight = w, scales = s, biases = bi, group_size = gs, bits = b,
               qbias = bias lin\<rparr>)"

definition QuantizedLinear_call :: "mlx \<Rightarrow> quantized_linear \<Rightarrow> tensor \<Rightarrow> error + tensor" where
  "QuantizedLinear_call ext q x =
     (case mx_dequantize ext (qweight q) (scales q) (biases q) (group_size q) (bits q) of
        Inl e \<Rightarrow> Inl e
      | Inr w \<Rightarrow> Linear_call \<lparr>weight = w, bias = qbias q\<rparr> x)"

text \<open>
  \<open>nn.Dropout\<close>: the constructor rejects \<open>p\<close> outside \<open>[0, 1)\<close>; the call is the identity
  outside training mode or when \<open>1 - p = 1\<close>, and otherwise multiplies by a Bernoulli mask
  (a parameter) and by \<open>1 / (1 - p)\<close>.
\<close>

definition Dropout_call :: "real \<Rightarrow> bool \<Rightarrow> (nat \<Rightarrow> nat \<Rightarrow> bool) \<Rightarrow> tensor \<Rightarrow> tensor" where
  "Dropout_call p training keep x =
     (if 1 - p = 1 \<or> \<not> training then x
      else tensor_scale (1 / (1 - p))
             (mk (nrows x) (ncols x) (\<lambda>i j. (if keep i j then 1 else 0) * entry x i j)))"

section \<open>LoRALinear (src/sillm/training/lora.py)\<close>

record lora_linear =
  linear_layer :: base_layer
  lora_dropout :: real
  scale :: real
  lora_a :: tensor
  lora_b :: tensor

text \<open>
  \<open>LoRALinear.__init__\<close>: builds a fresh linear layer, the dropout, the scale
  \<open>scale * (alpha / rank)\<close>, the bound \<open>1 / sqrt input_dims\<close>, factor A drawn uniformly within
  the bound and factor B all zeros.
\<close>

definition LoRALinear_init ::
    "mlx \<Rightarrow> int \<Rightarrow> int \<Rightarrow> int \<Rightarrow> real \<Rightarrow> real \<Rightarrow> real \<Rightarrow> bool \<Rightarrow> error + lora_linear" where
  "LoRALinear_init ext input_dims output_dims rank alpha dropout base_scale has_bias =
     (case nn_Linear ext input_dims output_dims has_bias of
        Inl e \<Rightarrow> Inl e
      | Inr lin \<Rightarrow>
          if dropout < 0 \<or> 1 \<le> dropout then Inl ValueError
          else if rank = 0 then Inl ZeroDivisionError
          else if rank < 0 then Inl ValueError
          else
            let bound = 1 / sqrt (real_of_int input_dims) in
            Inr \<lparr>linear_layer = Linear lin,
                 lora_dropout = dropout,
                 scale = base_scale * (alpha / real_of_int rank),
                 lora_a = uniform (draws ext) (- bound) bound (nat input_dims) (nat rank),
                 lora_b = zeros (nat rank) (nat output_dims)\<rparr>)"

text \<open>
  \<open>LoRALinear.from_linear\<close>: the dimensions come from the shape of the wrapped weight, the
  input dimension of a quantized layer multiplied by \<open>32 // bits\<close>.
\<close>

definition from_linear ::
    "mlx \<Rightarrow> base_layer \<Rightarrow> int \<Rightarrow> real \<Rightarrow> real \<Rightarrow> real \<Rightarrow> error + lora_linear" where
  "from_linear ext lin rank alpha dropout base_scale =
     (case lin of
        Linear l \<Rightarrow>
          (case LoRALinear_init ext (int (ncols (weight l))) (int (nrows (weight l)))
                  rank alpha dropout base_scale (bias l \<noteq> None) of
             Inl e \<Rightarrow> Inl e
           | Inr lora_lin \<Rightarrow> Inr (lora_lin\<lparr>linear_layer := lin\<rparr>))
      | QuantizedLinear q \<Rightarrow>
          if bits q = 0 then Inl ZeroDivisionError
          else
            (case LoRALinear_init ext (int (ncols (qweight q)) * (32 div bits q))
                    (int (nrows (qweight q))) rank alpha dropout base_scale (qbias q \<noteq> None) of
               Inl e \<Rightarrow> Inl e
             | Inr lora_lin \<Rightarrow> Inr (lora_lin\<lparr>linear_layer := lin\<rparr>)))"

text \<open>
  \<open>LoRALinear.__call__\<close>: the base projection first, then the low-rank path on the input
  after dropout, then \<open>y + scale * z\<close>.
\<close>

definition base_call :: "mlx \<Rightarrow> base_layer \<Rightarrow> tensor \<Rightarrow> error + tensor" where
  "base_call ext lin x =
     (case lin of Linear l \<Rightarrow> Linear_call l x | QuantizedLinear q \<Rightarrow> QuantizedLinear_call ext q x)"

definition LoRALinear_call ::
    "mlx \<Rightarrow> lora_linear \<Rightarrow> bool \<Rightarrow> (nat \<Rightarrow> nat \<Rightarrow> bool) \<Rightarrow> tensor \<Rightarrow> error + tensor" where
  "LoRALinear_call ext l training keep x =
     (case base_call ext (linear_layer l) x of
        Inl e \<Rightarrow> Inl e
      | Inr y \<Rightarrow>
          (case matmul (Dropout_call (lora_dropout l) training keep x) (lora_a l) of
             Inl e \<Rightarrow> Inl e
           | Inr xa \<Rightarrow>
               (case matmul xa (lora_b l) of
                  Inl e \<Rightarrow> Inl e
                | Inr z \<Rightarrow> tensor_add y (tensor_scale (scale l) z))))"

text \<open>
  \<open>LoRALinear.merge\<close>. For a plain layer the sum is stored into the wrapped layer, which is
  returned. For a quantized layer the weight is dequantized and the sum is computed, but the
  layer that is quantized and returned is the one \<open>nn.Linear(input_dims, output_dims, bias)\<close>
  has just constructed: the source never assigns the sum (nor the bias) to it.
\<close>

definition merge :: "mlx \<Rightarrow> lora_linear \<Rightarrow> error + base_layer" where
  "merge ext l =
     (case linear_layer l of
        Linear lin \<Rightarrow>
          (case matmul (lora_a l) (lora_b l) of
             Inl e \<Rightarrow> Inl e
           | Inr ab \<Rightarrow>
               (case tensor_add (weight lin) (tensor_scale (scale l) (transpose_t ab)) of
                  Inl e \<Rightarrow> Inl e
                | Inr w \<Rightarrow> Inr (Linear (lin\<lparr>weight := w\<rparr>))))
      | QuantizedLinear q \<Rightarrow>
          (case mx_dequantize ext (qweight q) (scales q) (biases q) (group_size q) (bits q) of
             Inl e \<Rightarrow> Inl e
           | Inr w0 \<Rightarrow>
               (case matmul (lora_a l) (lora_b l) of
                  Inl e \<Rightarrow> Inl e
                | Inr ab \<Rightarrow>
                    (case tensor_add w0 (tensor_scale (scale l) (transpose_t ab)) of
                       Inl e \<Rightarrow> Inl e
                     | Inr w \<Rightarrow>
                         (case nn_Linear ext (int (ncols w)) (int (nrows w)) (qbias q \<noteq> None) of
                            Inl e \<Rightarrow> Inl e
                          | Inr fresh \<Rightarrow>
                              (case QuantizedLinear_from_linear ext fresh (group_size q) (bits q) of
                                 Inl e \<Rightarrow> Inl e
                               | Inr ql \<Rightarrow> Inr (QuantizedLinear ql)))))))"

text \<open>
  The merged weight as the specification words it: entry \<open>(i, j)\<close> of the wrapped weight
  plus \<open>scale\<close> times entry \<open>(i, j)\<close> of the transpose of \<open>A @ B\<close>, that is
  \<open>scale * (\<Sum>k. A[j, k] * B[k, i])\<close>.
\<close>

definition merged_weight_spec :: "lora_linear \<Rightarrow> tensor \<Rightarrow> tensor" where
  "merged_weight_spec l w =
     mk (nrows w) (ncols w) (\<lambda>i j.
        entry w i j
      + scale l * (\<Sum>k\<leftarrow>[0..<ncols (lora_a l)]. entry (lora_a l) j k * entry (lora_b l) k i))"

section \<open>LLM (src/sillm/llm.py)\<close>

text \<open>
  The model is a tree of named sub-modules; \<open>named_modules()\<close> lists it as pairs of a dotted
  name and a module, and \<open>_update_names\<close> stores that name in each module, so the name of a
  module is the key it is listed under. A module is a plain or quantized linear layer, a
  LoRA adapter (which holds the layer it wraps as a sub-module), or anything else. The
  wrapper keeps the quantization descriptor
  \<open>(group_size, bits)\<close>; the training-mode flag, the frozen flag and the number of
  transformer layers belong to the external model object.
\<close>

datatype module = Base base_layer | LoRA lora_linear | Other

record llm =
  modules :: "(string \<times> module) list"
  layers :: nat
  training :: bool
  frozen :: bool
  quantization :: "(int \<times> int) option"

text \<open>
  \<open>update_modules(tree_unflatten(pairs))\<close> replaces the modules listed in \<open>pairs\<close> under
  their names and keeps the others; both library calls are taken as total.
\<close>

definition update_modules ::
    "(string \<times> module) list \<Rightarrow> (string \<times> module) list \<Rightarrow> (string \<times> module) list" where
  "update_modules pairs ms =
     map (\<lambda>(name, m). case map_of pairs name of Some m' \<Rightarrow> (name, m') | None \<Rightarrow> (name, m)) ms"

subsection \<open>quantize\<close>

text \<open>
  The selection predicate is
  \<open>isinstance(m, nn.Linear) and m.weight.shape[0] != 8 and m.name not in excluded\<close>.
  The conjunction is evaluated left to right and stops at the first false conjunct, so the
  membership test, which raises \<open>TypeError\<close> when \<open>excluded\<close> is \<open>None\<close>, is reached only for
  a plain linear layer whose output width is not 8.
\<close>

definition linear_class_predicate :: "string list option \<Rightarrow> string \<times> module \<Rightarrow> error + bool" where
  "linear_class_predicate excluded nm =
     (case snd nm of
        Base (Linear lin) \<Rightarrow>
          if nrows (weight lin) \<noteq> 8
          then (case excluded of
                  None \<Rightarrow> Inl TypeError
                | Some names \<Rightarrow> Inr (fst nm \<notin> set names))
          else Inr False
      | _ \<Rightarrow> Inr False)"

text \<open>
  \<open>nn.QuantizedLinear.quantize_module\<close> maps over \<open>model.leaf_modules()\<close>, replacing each
  selected leaf by \<open>QuantizedLinear.from_linear\<close> of it, and only then updates the tree; an
  exception in the map leaves the tree as it was. A LoRA adapter is not a leaf: its leaves
  are the layer it wraps and its dropout, in that order, so the predicate is applied to the
  wrapped layer as well. Every linear layer carries a name, as \<open>_update_names\<close> leaves it
  when the wrapper is constructed; a wrapped layer keeps the name it had when it was
  wrapped, which is the name of its adapter.
\<close>

definition quantize_leaf :: "mlx \<Rightarrow> int \<Rightarrow> int \<Rightarrow> module \<Rightarrow> error + module" where
  "quantize_leaf ext gs b m =
     (case m of
        Base (Linear lin) \<Rightarrow>
          (case QuantizedLinear_from_linear ext lin gs b of
             Inl e \<Rightarrow> Inl e
           | Inr ql \<Rightarrow> Inr (Base (QuantizedLinear ql)))
      | _ \<Rightarrow> Inl AttributeError)"

definition quantize_if_linear ::
    "mlx \<Rightarrow> int \<Rightarrow> int \<Rightarrow> (string \<times> module \<Rightarrow> error + bool) \<Rightarrow> string \<times> module
     \<Rightarrow> error + module" where
  "quantize_if_linear ext gs b pred leaf =
     (case pred leaf of
        Inl e \<Rightarrow> Inl e
      | Inr selected \<Rightarrow> if selected then quantize_leaf ext gs b (snd leaf) else Inr (snd leaf))"

definition quantize_leaves ::
    "mlx \<Rightarrow> int \<Rightarrow> int \<Rightarrow> (string \<times> module \<Rightarrow> error + bool) \<Rightarrow> string \<times> module
     \<Rightarrow> error + module" where
  "quantize_leaves ext gs b pred nm =
     (case snd nm of
        LoRA l \<Rightarrow>
          (case quantize_if_linear ext gs b pred (fst nm, Base (linear_layer l)) of
             Inl e \<Rightarrow> Inl e
           | Inr inner \<Rightarrow>
               (case quantize_if_linear ext gs b pred (fst nm, Other) of
                  Inl e \<Rightarrow> Inl e
                | Inr dropout \<Rightarrow>
                    Inr (case inner of
                           Base bl \<Rightarrow> LoRA (l\<lparr>linear_layer := bl\<rparr>)
                         | _ \<Rightarrow> LoRA l)))
      | _ \<Rightarrow> quantize_if_linear ext gs b pred nm)"

fun quantize_module ::
    "mlx \<Rightarrow> int \<Rightarrow> int \<Rightarrow> (string \<times> module \<Rightarrow> error + bool) \<Rightarrow> (string \<times> module) list
     \<Rightarrow> error + (string \<times> module) list" where
  "quantize_module ext gs b pred [] = Inr []"
| "quantize_module ext gs b pred (nm # rest) =
     (case quantize_leaves ext gs b pred nm of
        Inl e \<Rightarrow> Inl e
      | Inr m' \<Rightarrow>
          (case quantize_module ext gs b pred rest of
             Inl e \<Rightarrow> Inl e
           | Inr rest' \<Rightarrow> Inr ((fst nm, m') # rest')))"

text \<open>
  The modules with a leaf for which the membership test is reached: a plain linear layer
  of output width other than 8, in the tree itself or wrapped by an adapter.
\<close>

definition eligible :: "string \<times> module \<Rightarrow> bool" where
  "eligible nm =
     (case snd nm of
        Base (Linear lin) \<Rightarrow> nrows (weight lin) \<noteq> 8
      | LoRA l \<Rightarrow>
          (case linear_layer l of Linear lin \<Rightarrow> nrows (weight lin) \<noteq> 8 | _ \<Rightarrow> False)
      | _ \<Rightarrow> False)"

text \<open>
  \<open>LLM.quantize\<close> stores the descriptor before it calls \<open>quantize_module\<close>; the result is the
  wrapper after the call and the exception raised, if any.
\<close>

definition quantize :: "mlx \<Rightarrow> int \<Rightarrow> int \<Rightarrow> string list option \<Rightarrow> llm \<Rightarrow> llm \<times> error option" where
  "quantize ext gs b excluded s =
     (if quantization s = None
      then
        let s1 = s\<lparr>quantization := Some (gs, b)\<rparr> in
        (case quantize_module ext gs b (linear_class_predicate excluded) (modules s1) of
           Inl e \<Rightarrow> (s1, Some e)
         | Inr ms \<Rightarrow> (s1\<lparr>modules := ms\<rparr>, None))
      else (s, None))"

subsection \<open>generate\<close>

text \<open>
  The tokenizer and the forward pass of the model are external. \<open>forward key tokens cache\<close>
  is the call \<open>self.model(tokens, cache)\<close>: it returns the logits of the last position and the
  new cache, or raises. The call runs the layers of the model, among them the LoRA adapters
  with their dropout, which draws from the global random state of the runtime; the forward
  pass therefore receives the random key and returns the key it leaves. \<open>mx.argmax\<close> returns
  the first index of the maximum; \<open>mx.random.categorical\<close> is a parameter that consumes the
  same random key.
\<close>

record tokenizer =
  encode :: "string \<Rightarrow> int list"
  decode :: "int list \<Rightarrow> string"
  eos_id :: int

fun argmax_from :: "nat \<Rightarrow> real \<Rightarrow> nat \<Rightarrow> real list \<Rightarrow> nat" where
  "argmax_from best v i [] = best"
| "argmax_from best v i (x # xs) =
     (if v < x then argmax_from i x (Suc i) xs else argmax_from best v (Suc i) xs)"

definition argmax :: "real list \<Rightarrow> error + nat" where
  "argmax logits =
     (case logits of [] \<Rightarrow> Inl ValueError | x # xs \<Rightarrow> Inr (argmax_from 0 x 1 xs))"

definition sample ::
    "real \<Rightarrow> ('r \<Rightarrow> real list \<Rightarrow> int \<times> 'r) \<Rightarrow> 'r \<Rightarrow> real list \<Rightarrow> error + int \<times> 'r" where
  "sample temp categorical key logits =
     (if temp = 0
      then (case argmax logits of Inl e \<Rightarrow> Inl e | Inr i \<Rightarrow> Inr (int i, key))
      else Inr (categorical key (map (\<lambda>x. x * (1 / temp)) logits)))"

text \<open>
  The inner generator \<open>generate_step\<close>: its first \<open>next\<close> runs the model on the prompt, every
  later one on the token it yielded last, with the cache.
\<close>

datatype 'c generate_step_state = NotStarted | Yielded int 'c

definition generate_step ::
    "('r \<Rightarrow> int list \<Rightarrow> 'c option \<Rightarrow> error + (real list \<times> 'c) \<times> 'r) \<Rightarrow> real
     \<Rightarrow> ('r \<Rightarrow> real list \<Rightarrow> int \<times> 'r) \<Rightarrow> int list \<Rightarrow> 'c generate_step_state \<times> 'r
     \<Rightarrow> error + int \<times> 'c generate_step_state \<times> 'r" where
  "generate_step forward temp categorical prompt g =
     (case (case fst g of
              NotStarted \<Rightarrow> forward (snd g) prompt None
            | Yielded y cache \<Rightarrow> forward (snd g) [y] (Some cache)) of
        Inl e \<Rightarrow> Inl e
      | Inr ((logits, cache'), key1) \<Rightarrow>
          (case sample temp categorical key1 logits of
             Inl e \<Rightarrow> Inl e
           | Inr (y, key2) \<Rightarrow> Inr (y, Yielded y cache', key2)))"

text \<open>
  What a run of \<open>generate\<close> produces: the chunks it yields, each the token ids it decodes,
  their text and the cumulative \<open>stats["num_tokens"]\<close> (the runtime is not modelled); the
  number of tokens taken from \<open>generate_step\<close>; and the exception that ended the run, if any.
\<close>

record generation =
  chunks :: "(int list \<times> string \<times> nat) list"
  stats_num_tokens :: nat
  sampled :: nat
  raised :: "error option"

definition yield :: "(int list \<Rightarrow> string) \<Rightarrow> int list \<Rightarrow> generation \<Rightarrow> generation" where
  "yield dec tokens run =
     run\<lparr>chunks := chunks run @ [(tokens, dec tokens, stats_num_tokens run + length tokens)],
         stats_num_tokens := stats_num_tokens run + length tokens\<rparr>"

text \<open>
  The loop \<open>for token, _ in zip(generate_step(), range(num_tokens))\<close>. \<open>zip\<close> advances its
  first argument first: each round takes a token from the generator and only then asks the
  range, so when the range is exhausted one more token has been sampled and is dropped.
  \<open>remaining\<close> is the number of elements the range still has. The flush test
  \<open>len(tokens) % flush\<close> divides by \<open>flush\<close>. After the loop the rest is yielded, also when
  it is empty.
\<close>

fun generate_loop ::
    "('s \<Rightarrow> error + int \<times> 's) \<Rightarrow> int \<Rightarrow> int \<Rightarrow> (int list \<Rightarrow> string) \<Rightarrow> nat \<Rightarrow> 's \<Rightarrow> int list
     \<Rightarrow> generation \<Rightarrow> generation" where
  "generate_loop nxt eos flush dec remaining g tokens run =
     (case nxt g of
        Inl e \<Rightarrow> run\<lparr>raised := Some e\<rparr>
      | Inr (token, g') \<Rightarrow>
          (let run1 = run\<lparr>sampled := Suc (sampled run)\<rparr> in
           case remaining of
             0 \<Rightarrow> yield dec tokens run1
           | Suc n \<Rightarrow>
               if token = eos then yield dec tokens run1
               else if flush = 0 then run1\<lparr>raised := Some ZeroDivisionError\<rparr>
               else if int (length (tokens @ [token])) mod flush = 0
               then generate_loop nxt eos flush dec n g' [] (yield dec (tokens @ [token]) run1)
               else generate_loop nxt eos flush dec n g' (tokens @ [token]) run1))"

definition generate ::
    "tokenizer \<Rightarrow> ('r \<Rightarrow> int list \<Rightarrow> 'c option \<Rightarrow> error + (real list \<times> 'c) \<times> 'r)
     \<Rightarrow> ('r \<Rightarrow> real list \<Rightarrow> int \<times> 'r) \<Rightarrow> 'r \<Rightarrow> string \<Rightarrow> real \<Rightarrow> int \<Rightarrow> int \<Rightarrow> generation" where
  "generate tok forward categorical key prompt temp num_tokens flush =
     generate_loop (generate_step forward temp categorical (encode tok prompt))
       (eos_id tok) flush (decode tok) (nat num_tokens) (NotStarted, key) []
       \<lparr>chunks = [], stats_num_tokens = 0, sampled = 0, raised = None\<rparr>"

text \<open>What a call of the forward pass returns or raises, without the random key it leaves.\<close>

definition forward_output :: "error + 'a \<times> 'r \<Rightarrow> error + 'a" where
  "forward_output r = (case r of Inl e \<Rightarrow> Inl e | Inr (out, key) \<Rightarrow> Inr out)"

text \<open>The token ids of all chunks of a run, in the order they were yielded.\<close>

definition emitted :: "generation \<Rightarrow> int list" where
  "emitted run = concat (map fst (chunks run))"

section \<open>TrainableLoRA (src/sillm/training/lora.py)\<close>

text \<open>
  The trainable wrapper adds the LoRA configuration \<open>_lora\<close> (\<open>None\<close> when no adapter is
  active) and the list \<open>_lora_modules\<close> of the adapters with their names.
\<close>

record lora_config =
  num_layers :: int
  target_modules :: string
  rank :: int

record trainable_lora = llm +
  lora :: "lora_config option"
  lora_modules :: "(string \<times> lora_linear) list"

subsection \<open>init\_lora\<close>

text \<open>
  The selector \<open>"query_value"\<close> keeps the names matched by
  \<open>re.search(r"\.attention\.(wq|wv)$", key)\<close>: the name ends with \<open>.attention.wq\<close> or
  \<open>.attention.wv\<close>, where \<open>$\<close> also matches just before a final newline.
\<close>

definition ends_with :: "string \<Rightarrow> string \<Rightarrow> bool" where
  "ends_with sfx s \<longleftrightarrow> length sfx \<le> length s \<and> drop (length s - length sfx) s = sfx"

definition query_value_match :: "string \<Rightarrow> bool" where
  "query_value_match key \<longleftrightarrow>
     ends_with ''.attention.wq'' key \<or> ends_with ''.attention.wv'' key
     \<or> ends_with (''.attention.wq'' @ [CHR 0x0A]) key
     \<or> ends_with (''.attention.wv'' @ [CHR 0x0A]) key"

definition is_linear_module :: "module \<Rightarrow> bool" where
  "is_linear_module m = (case m of Base _ \<Rightarrow> True | _ \<Rightarrow> False)"

text \<open>
  \<open>LoRALinear.from_linear\<close> reads \<open>linear.weight.shape\<close>, which only a plain or quantized linear
  layer has. The list comprehension wraps the selected modules in order and stops at the
  first exception.
\<close>

definition module_from_linear ::
    "mlx \<Rightarrow> module \<Rightarrow> int \<Rightarrow> real \<Rightarrow> real \<Rightarrow> real \<Rightarrow> error + lora_linear" where
  "module_from_linear ext m r alpha dropout base_scale =
     (case m of
        Base lin \<Rightarrow> from_linear ext lin r alpha dropout base_scale
      | _ \<Rightarrow> Inl AttributeError)"

fun wrap_modules ::
    "mlx \<Rightarrow> int \<Rightarrow> real \<Rightarrow> real \<Rightarrow> real \<Rightarrow> (string \<times> module) list
     \<Rightarrow> error + (string \<times> lora_linear) list" where
  "wrap_modules ext r alpha dropout base_scale [] = Inr []"
| "wrap_modules ext r alpha dropout base_scale ((key, m) # rest) =
     (case module_from_linear ext m r alpha dropout base_scale of
        Inl e \<Rightarrow> Inl e
      | Inr l \<Rightarrow>
          (case wrap_modules ext r alpha dropout base_scale rest of
             Inl e \<Rightarrow> Inl e
           | Inr ls \<Rightarrow> Inr ((key, l) # ls)))"

text \<open>
  \<open>init_lora\<close>: everything happens under \<open>if self._lora is None\<close>, and there is no other
  branch. The model is frozen and \<open>_lora\<close> is set before the adapters are built, so an
  exception from the wrapping leaves both changes in place. A selector that is neither
  \<open>"all_linear"\<close> nor \<open>"query_value"\<close> leaves \<open>_lora_modules\<close> as it was.
\<close>

definition init_lora ::
    "mlx \<Rightarrow> int \<Rightarrow> string \<Rightarrow> int \<Rightarrow> real \<Rightarrow> real \<Rightarrow> real \<Rightarrow> trainable_lora
     \<Rightarrow> trainable_lora \<times> error option" where
  "init_lora ext n target r alpha dropout base_scale s =
     (if lora s = None
      then
        let s1 = s\<lparr>frozen := True\<rparr>;
            n' = (if n < 0 then int (layers s1) else n);
            s2 = s1\<lparr>lora := Some \<lparr>num_layers = n', target_modules = target, rank = r\<rparr>\<rparr>
        in
        (case (if target = ''all_linear''
               then wrap_modules ext r alpha dropout base_scale
                      (filter (\<lambda>(key, m). is_linear_module m) (modules s2))
               else if target = ''query_value''
               then wrap_modules ext r alpha dropout base_scale
                      (filter (\<lambda>(key, m). query_value_match key) (modules s2))
               else Inr (lora_modules s2)) of
           Inl e \<Rightarrow> (s2, Some e)
         | Inr ls \<Rightarrow>
             (s2\<lparr>lora_modules := ls,
                 modules := update_modules (map (\<lambda>(key, l). (key, LoRA l)) ls) (modules s2),
                 training := True\<rparr>,
              None))
      else (s, None))"

subsection \<open>merge\_and\_unload\_lora\<close>

fun merge_modules :: "mlx \<Rightarrow> (string \<times> lora_linear) list \<Rightarrow> error + (string \<times> module) list" where
  "merge_modules ext [] = Inr []"
| "merge_modules ext ((key, l) # rest) =
     (case merge ext l of
        Inl e \<Rightarrow> Inl e
      | Inr m \<Rightarrow>
          (case merge_modules ext rest of
             Inl e \<Rightarrow> Inl e
           | Inr ms \<Rightarrow> Inr ((key, Base m) # ms)))"

text \<open>
  \<open>merge_and_unload_lora\<close>: the merge runs only when \<open>_lora\<close> is set; the three resetting
  statements follow the \<open>if\<close> and run in either case, unless a merge has raised.
\<close>

definition merge_and_unload_lora :: "mlx \<Rightarrow> trainable_lora \<Rightarrow> trainable_lora \<times> error option" where
  "merge_and_unload_lora ext s =
     (case (if lora s \<noteq> None
            then (case merge_modules ext (lora_modules s) of
                    Inl e \<Rightarrow> Inl e
                  | Inr merged \<Rightarrow> Inr (s\<lparr>modules := update_modules merged (modules s)\<rparr>))
            else Inr s) of
        Inl e \<Rightarrow> (s, Some e)
      | Inr s1 \<Rightarrow> (s1\<lparr>lora := None, lora_modules := [], training := False\<rparr>, None))"

text \<open>An adapter is mergeable when its \<open>merge\<close> returns a layer rather than raising.\<close>

definition mergeable :: "mlx \<Rightarrow> lora_linear \<Rightarrow> bool" where
  "mergeable ext l = (case merge ext l of Inl e \<Rightarrow> False | Inr m \<Rightarrow> True)"

text \<open>The two states of the LoRA lifecycle.\<close>

definition unadapted :: "trainable_lora \<Rightarrow> bool" where
  "unadapted s \<longleftrightarrow> lora s = None \<and> lora_modules s = [] \<and> \<not> training s"

definition adapted :: "trainable_lora \<Rightarrow> bool" where
  "adapted s \<longleftrightarrow> lora s \<noteq> None"

subsection \<open>evaluate\<close>

text \<open>
  The dataset is an external collaborator: \<open>len\<close> is \<open>len(dataset)\<close>,
  \<open>iterate_batches batch_size\<close> the sequence of batches of \<open>iterate_batches(batch_size)\<close>, and
  \<open>next_train_batch batch_size n\<close> the batch that
  \<open>next(dataset.iterate_batches(batch_size, train=True))\<close> returns at training step \<open>n\<close>, or
  \<open>None\<close> when that iterator is empty.
\<close>

record 'b dataset =
  len :: nat
  iterate_batches :: "int \<Rightarrow> 'b list"
  next_train_batch :: "int \<Rightarrow> int \<Rightarrow> 'b option"

text \<open>
  \<open>evaluate\<close> walks \<open>zip(range(num_batches), dataset.iterate_batches(batch_size))\<close>. The range
  is the first argument of \<open>zip\<close>, so exactly the first \<open>num_batches\<close> batches are drawn (none
  for a negative count) and no further batch is pulled from the iterator.
  \<open>loss\<close> stands for \<open>self.loss\<close> at the current parameters and returns the pair
  \<open>(losses, toks)\<close>.
\<close>

definition zip_range :: "int \<Rightarrow> 'b list \<Rightarrow> 'b list" where
  "zip_range n xs = take (nat n) xs"

fun evaluate_loop ::
    "('b \<Rightarrow> real \<times> real) \<Rightarrow> 'b list \<Rightarrow> real list \<times> real \<Rightarrow> real list \<times> real" where
  "evaluate_loop loss [] acc = acc"
| "evaluate_loop loss (batch # rest) (all_losses, num_tokens) =
     (case loss batch of (losses, toks) \<Rightarrow>
        evaluate_loop loss rest (all_losses @ [losses * toks], num_tokens + toks))"

text \<open>
  The last line is \<open>np.sum(all_losses) / num_tokens\<close>. With a token total of zero numpy does
  not raise: the quotient is \<open>nan\<close>, which is no real number, so the model returns \<open>None\<close>
  there instead of HOL's \<open>x / 0 = 0\<close>.
\<close>

definition evaluate ::
    "('b \<Rightarrow> real \<times> real) \<Rightarrow> 'b dataset \<Rightarrow> int \<Rightarrow> int \<Rightarrow> real option" where
  "evaluate loss ds batch_size num_batches =
     (case evaluate_loop loss (zip_range num_batches (iterate_batches ds batch_size)) ([], 0) of
        (all_losses, num_tokens) \<Rightarrow>
          if num_tokens = 0 then None else Some (sum_list all_losses / num_tokens))"

subsection \<open>train\<close>

text \<open>
  The autograd engine and the optimizer are external: \<open>loss_fn m\<close> is \<open>self.loss\<close> at the
  parameters \<open>m\<close>, \<open>grad_fn m batch\<close> the gradient, and \<open>optimizer_update m g\<close> the
  parameters (with the optimizer's state) after one update.
\<close>

record ('m, 'b, 'g) engine =
  loss_fn :: "'m \<Rightarrow> 'b \<Rightarrow> real \<times> real"
  grad_fn :: "'m \<Rightarrow> 'b \<Rightarrow> 'g"
  optimizer_update :: "'m \<Rightarrow> 'g \<Rightarrow> 'm"

datatype report =
    TrainingLoss int real
  | ValidationLoss int "real option"
  | CallbackMessage int string

text \<open>
  The state of a training run: the parameters, the accumulators \<open>losses\<close> and
  \<open>num_tokens\<close>, the lines written to the progress bar (wall-clock figures left out), and
  the pairs \<open>(epoch, iter)\<close> of the steps whose optimizer update was applied.
\<close>

record 'm training_run =
  params :: 'm
  losses :: "real list"
  num_tokens :: real
  written :: "report list"
  steps :: "(int \<times> int) list"

definition floordiv :: "int \<Rightarrow> int \<Rightarrow> error + int" where
  "floordiv a b = (if b = 0 then Inl ZeroDivisionError else Inr (a div b))"

text \<open>
  The validation block of a step: \<open>evaluate\<close> on the validation set, the report line, then
  the call \<open>eval_callback(n + 1, val_loss)\<close>, which is not guarded: with the default
  \<open>None\<close> the call raises \<open>TypeError\<close>. A non-empty message is written.
\<close>

definition validate ::
    "('m, 'b, 'g) engine \<Rightarrow> 'b dataset \<Rightarrow> int \<Rightarrow> int \<Rightarrow> (int \<Rightarrow> real option \<Rightarrow> string) option
     \<Rightarrow> int \<Rightarrow> 'm training_run \<Rightarrow> 'm training_run \<times> error option" where
  "validate eng dataset_validation batch_size validation_batches eval_callback n st =
     (let val_loss = evaluate (loss_fn eng (params st)) dataset_validation batch_size
                       validation_batches;
          st1 = st\<lparr>written := written st @ [ValidationLoss (n + 1) val_loss]\<rparr>
      in case eval_callback of
           None \<Rightarrow> (st1, Some TypeError)
         | Some callback \<Rightarrow>
             (let msg = callback (n + 1) val_loss
              in if msg \<noteq> [] then (st1\<lparr>written := written st1 @ [CallbackMessage (n + 1) msg]\<rparr>, None)
                 else (st1, None)))"

text \<open>
  One pass through the body of the inner loop, for step \<open>n = epoch * iterations + iter\<close>.
  The zero-gradient check of debug mode only logs and is left out. Both periodic tests
  divide: \<open>(n + 1) % report_steps\<close> always, \<open>(n + 1) % eval_steps\<close> unless \<open>n = 0\<close>.
\<close>

definition train_step ::
    "('m, 'b, 'g) engine \<Rightarrow> 'b dataset \<Rightarrow> 'b dataset \<Rightarrow> int \<Rightarrow> int \<Rightarrow> int \<Rightarrow> int
     \<Rightarrow> (int \<Rightarrow> real option \<Rightarrow> string) option \<Rightarrow> int \<Rightarrow> int \<times> int \<Rightarrow> 'm training_run
     \<Rightarrow> 'm training_run \<times> error option" where
  "train_step eng dataset_training dataset_validation batch_size iterations report_steps
       eval_steps eval_callback validation_batches ei st =
     (let n = fst ei * iterations + snd ei in
      case next_train_batch dataset_training batch_size n of
        None \<Rightarrow> (st, Some StopIteration)
      | Some batch \<Rightarrow>
          (let (loss_value, toks) = loss_fn eng (params st) batch;
               g = grad_fn eng (params st) batch;
               st1 = st\<lparr>params := optimizer_update eng (params st) g,
                        steps := steps st @ [ei],
                        losses := losses st @ [loss_value],
                        num_tokens := num_tokens st + toks\<rparr>
           in if report_steps = 0 then (st1, Some ZeroDivisionError)
              else
                (let st2 =
                       (if (n + 1) mod report_steps = 0
                        then st1\<lparr>written := written st1 @
                                   [TrainingLoss (n + 1)
                                      (sum_list (losses st1) / real (length (losses st1)))],
                                 losses := [], num_tokens := 0\<rparr>
                        else st1)
                 in if n = 0
                    then validate eng dataset_validation batch_size validation_batches
                           eval_callback n st2
                    else if eval_steps = 0 then (st2, Some ZeroDivisionError)
                    else if (n + 1) mod eval_steps = 0
                    then validate eng dataset_validation batch_size validation_batches
                           eval_callback n st2
                    else (st2, None))))"

fun train_loop ::
    "('i \<Rightarrow> 's \<Rightarrow> 's \<times> error option) \<Rightarrow> 'i list \<Rightarrow> 's \<Rightarrow> 's \<times> error option" where
  "train_loop step [] st = (st, None)"
| "train_loop step (i # rest) st =
     (case step i st of
        (st', Some e) \<Rightarrow> (st', Some e)
      | (st', None) \<Rightarrow> train_loop step rest st')"

text \<open>\<open>range(k)\<close> as a list, and the pairs the two nested loops go through, in order.\<close>

definition range_list :: "int \<Rightarrow> int list" where
  "range_list k = map int [0..<nat k]"

definition epoch_iterations :: "int \<Rightarrow> int \<Rightarrow> (int \<times> int) list" where
  "epoch_iterations epochs iterations =
     concat (map (\<lambda>epoch. map (\<lambda>iter. (epoch, iter)) (range_list iterations)) (range_list epochs))"

text \<open>
  \<open>train\<close>: a zero \<open>iterations\<close> is replaced by \<open>len(dataset_training) // batch_size\<close>, the
  number of validation batches is \<open>validation_samples // batch_size\<close>; both divisions raise
  for a zero batch size.
\<close>

definition train ::
    "('m, 'b, 'g) engine \<Rightarrow> 'b dataset \<Rightarrow> 'b dataset \<Rightarrow> int \<Rightarrow> int \<Rightarrow> int \<Rightarrow> int \<Rightarrow> int
     \<Rightarrow> (int \<Rightarrow> real option \<Rightarrow> string) option \<Rightarrow> int \<Rightarrow> 'm
     \<Rightarrow> 'm training_run \<times> error option" where
  "train eng dataset_training dataset_validation batch_size epochs iterations report_steps
       eval_steps eval_callback validation_samples m =
     (let st0 = \<lparr>params = m, losses = [], num_tokens = 0, written = [], steps = []\<rparr> in
      case (if iterations = 0 then floordiv (int (len dataset_training)) batch_size
            else Inr iterations) of
        Inl e \<Rightarrow> (st0, Some e)
      | Inr iterations' \<Rightarrow>
          (case floordiv validation_samples batch_size of
             Inl e \<Rightarrow> (st0, Some e)
           | Inr validation_batches \<Rightarrow>
               train_loop
                 (train_step eng dataset_training dataset_validation batch_size iterations'
                    report_steps eval_steps eval_callback validation_batches)
                 (epoch_iterations epochs iterations') st0))"

section \<open>Concrete instances\<close>

text \<open>
  Small inputs on which the theorems below are exercised: a runtime whose quantizer stores
  the weight unchanged (a quantization without error) and whose random draws are all 1, a
  linear layer with two outputs and one input, and adapters wrapping it.
\<close>

definition lossless_mlx :: mlx where
  "lossless_mlx =
     \<lparr>mx_quantize = (\<lambda>w gs b. Inr (w, zeros 0 0, zeros 0 0)),
      mx_dequantize = (\<lambda>w s bi gs b. Inr w),
      draws = (\<lambda>i j. 1)\<rparr>"

definition small_linear :: linear where
  "small_linear = \<lparr>weight = Tensor 2 1 [[3], [4]], bias = Some (Tensor 1 2 [[1, 2]])\<rparr>"

definition fresh_adapter :: lora_linear where
  "fresh_adapter =
     \<lparr>linear_layer = Linear small_linear, lora_dropout = 1 / 20, scale = 80,
      lora_a = Tensor 1 2 [[1, 1]], lora_b = Tensor 2 2 [[0, 0], [0, 0]]\<rparr>"

definition trained_adapter :: lora_linear where
  "trained_adapter = fresh_adapter\<lparr>lora_b := Tensor 2 2 [[1, 0], [0, 2]]\<rparr>"

text \<open>
  An adapter around a quantized layer whose packed weight dequantizes to the same matrix as
  the weight of \<open>small_linear\<close>.
\<close>

definition quantized_adapter :: lora_linear where
  "quantized_adapter =
     trained_adapter\<lparr>linear_layer := QuantizedLinear
        \<lparr>qweight = Tensor 2 1 [[3], [4]], scales = zeros 0 0, biases = zeros 0 0,
         group_size = 64, bits = 4, qbias = Some (Tensor 1 2 [[1, 2]])\<rparr>\<rparr>"

text \<open>
  Two forward passes over a vocabulary of four tokens that draw nothing from the random
  key: one whose most likely next token is the successor of the last token modulo 4, one
  whose most likely token is always 1; and a tokenizer whose end-of-sequence id is 0.
\<close>

definition one_hot :: "nat \<Rightarrow> nat \<Rightarrow> real list" where
  "one_hot k n = map (\<lambda>i. if i = k then 1 else 0) [0..<n]"

definition counting_forward ::
    "'r \<Rightarrow> int list \<Rightarrow> unit option \<Rightarrow> error + (real list \<times> unit) \<times> 'r" where
  "counting_forward key tokens cache =
     (case rev tokens of
        [] \<Rightarrow> Inr ((one_hot 0 4, ()), key)
      | t # _ \<Rightarrow> Inr ((one_hot (nat ((t + 1) mod 4)) 4, ()), key))"

definition constant_forward ::
    "'r \<Rightarrow> int list \<Rightarrow> unit option \<Rightarrow> error + (real list \<times> unit) \<times> 'r" where
  "constant_forward key tokens cache = Inr ((one_hot 1 4, ()), key)"

definition small_tokenizer :: tokenizer where
  "small_tokenizer = \<lparr>encode = map (\<lambda>c. 1), decode = map (\<lambda>t. CHR ''x''), eos_id = 0\<rparr>"

text \<open>
  A forward pass made of one adapter over a vocabulary of two tokens: the logits are the
  adapter's output on a fixed input row, and the dropout mask of the call is drawn from the
  random key, here a seed whose parity decides whether the input is kept or dropped. The
  adapter's correction raises the logit of token 0 above that of token 1. The tokenizer's
  end-of-sequence id lies outside the vocabulary.
\<close>

definition two_token_tokenizer :: tokenizer where
  "two_token_tokenizer = \<lparr>encode = map (\<lambda>c. 1), decode = map (\<lambda>t. CHR ''x''), eos_id = 2\<rparr>"

definition dropout_adapter :: lora_linear where
  "dropout_adapter = fresh_adapter\<lparr>lora_b := Tensor 2 2 [[1, 0], [0, 0]]\<rparr>"

definition adapter_forward ::
    "lora_linear \<Rightarrow> bool \<Rightarrow> nat \<Rightarrow> int list \<Rightarrow> unit option \<Rightarrow> error + (real list \<times> unit) \<times> nat" where
  "adapter_forward l tr seed tokens cache =
     (case LoRALinear_call lossless_mlx l tr (\<lambda>i j. even seed) (Tensor 1 1 [[1]]) of
        Inl e \<Rightarrow> Inl e
      | Inr y \<Rightarrow> Inr ((concat (rows y), ()), seed + 2))"

text \<open>
  Models: one whose only linear layer has output width 8, one whose only linear layer is
  wrapped by an adapter, one with a single attention projection, the latter as a trainable
  wrapper before and after adaptation.
\<close>

definition gate_only_model :: llm where
  "gate_only_model =
     \<lparr>modules = [([], Other), (''layers.0.feed_forward.gate'', Base (Linear \<lparr>weight = zeros 8 2, bias = None\<rparr>))],
      layers = 1, training = False, frozen = False, quantization = None\<rparr>"

definition wrapped_model :: llm where
  "wrapped_model =
     \<lparr>modules = [([], Other), (''layers.0.attention.wq'', LoRA fresh_adapter)],
      layers = 1, training = True, frozen = True, quantization = None\<rparr>"

definition small_model :: llm where
  "small_model =
     \<lparr>modules = [([], Other), (''layers.0.attention.wq'', Base (Linear small_linear))],
      layers = 1, training = False, frozen = False, quantization = None\<rparr>"

definition adapted_model :: trainable_lora where
  "adapted_model =
     \<lparr>modules = [([], Other), (''layers.0.attention.wq'', LoRA trained_adapter)],
      layers = 1, training = True, frozen = True, quantization = None,
      lora = Some \<lparr>num_layers = 1, target_modules = ''query_value'', rank = 2\<rparr>,
      lora_modules = [(''layers.0.attention.wq'', trained_adapter)]\<rparr>"

definition plain_model :: trainable_lora where
  "plain_model =
     \<lparr>modules = [([], Other), (''layers.0.attention.wq'', Base (Linear small_linear))],
      layers = 1, training = False, frozen = False, quantization = None,
      lora = None, lora_modules = []\<rparr>"

text \<open>
  A training set-up: an engine whose loss is 2 over 10 tokens on every batch and whose
  update counts the steps, and datasets of \<open>n\<close> examples that yield a training batch whenever
  \<open>n\<close> reaches the batch size.
\<close>

definition counting_engine :: "(nat, unit, unit) engine" where
  "counting_engine =
     \<lparr>loss_fn = (\<lambda>m b. (2, 10)), grad_fn = (\<lambda>m b. ()), optimizer_update = (\<lambda>m g. Suc m)\<rparr>"

definition unit_dataset :: "nat \<Rightarrow> unit dataset" where
  "unit_dataset n =
     \<lparr>len = n, iterate_batches = (\<lambda>batch_size. replicate (n div nat batch_size) ()),
      next_train_batch = (\<lambda>batch_size k. if int n < batch_size then None else Some ())\<rparr>"

section \<open>Facts about tensors\<close>

lemma nrows_mk [simp]: "nrows (mk r c f) = r"
  by (simp add: mk_def)

lemma ncols_mk [simp]: "ncols (mk r c f) = c"
  by (simp add: mk_def)

lemma entry_mk [simp]: "i < r \<Longrightarrow> j < c \<Longrightarrow> entry (mk r c f) i j = f i j"
  by (simp add: mk_def entry_def)

lemma mk_cong: "(\<And>i j. i < r \<Longrightarrow> j < c \<Longrightarrow> f i j = g i j) \<Longrightarrow> mk r c f = mk r c g"
  by (simp add: mk_def)

lemma well_shaped_mk [simp]: "well_shaped (mk r c f)"
  by (simp add: well_shaped_def mk_def list_all_iff)

lemma mk_entry: "well_shaped t \<Longrightarrow> mk (nrows t) (ncols t) (entry t) = t"
  by (cases t) (auto simp: well_shaped_def mk_def entry_def list_all_iff intro!: nth_equalityI)

lemma nrows_zeros [simp]: "nrows (zeros r c) = r"
  by (simp add: zeros_def)

lemma ncols_zeros [simp]: "ncols (zeros r c) = c"
  by (simp add: zeros_def)

lemma sum_list_map_zero:
  "(\<And>x. x \<in> set xs \<Longrightarrow> f x = (0::real)) \<Longrightarrow> sum_list (map f xs) = 0"
  by (induction xs) simp_all

text \<open>A product with an all-zero right factor is all zero.\<close>

lemma matmul_zeros:
  "matmul a (zeros r c) = (if ncols a = r then Inr (zeros (nrows a) c) else Inl ValueError)"
  by (auto simp: matmul_def zeros_def intro!: mk_cong sum_list_map_zero)

lemma tensor_scale_zeros [simp]: "tensor_scale s (zeros r c) = zeros r c"
  by (auto simp: tensor_scale_def zeros_def intro!: mk_cong)

lemma broadcast_dim_same [simp]: "broadcast_dim n n = Some n"
  by (simp add: broadcast_dim_def)

lemma broadcast_index_less [simp]: "i < d \<Longrightarrow> broadcast_index d i = i"
  by (auto simp: broadcast_index_def)

text \<open>Adding zeros that broadcast to the shape of \<open>y\<close> returns \<open>y\<close>.\<close>

lemma tensor_add_zeros:
  assumes "well_shaped y"
    and "broadcast_dim (nrows y) n = Some (nrows y)"
    and "broadcast_dim (ncols y) c = Some (ncols y)"
  shows "tensor_add y (zeros n c) = Inr y"
proof -
  have "mk (nrows y) (ncols y) (\<lambda>i j.
            entry y (broadcast_index (nrows y) i) (broadcast_index (ncols y) j)
          + entry (zeros n c) (broadcast_index n i) (broadcast_index c j))
        = mk (nrows y) (ncols y) (entry y)"
    using assms(2,3)
    by (intro mk_cong) (auto simp: broadcast_index_def broadcast_dim_def zeros_def split: if_splits)
  then show ?thesis
    using assms by (simp add: tensor_add_def mk_entry)
qed

lemma nrows_Dropout_call [simp]: "nrows (Dropout_call p tr keep x) = nrows x"
  by (simp add: Dropout_call_def tensor_scale_def)

lemma ncols_Dropout_call [simp]: "ncols (Dropout_call p tr keep x) = ncols x"
  by (simp add: Dropout_call_def tensor_scale_def)

section \<open>The adapter layer\<close>

lemma Linear_call_shape:
  assumes "Linear_call lin x = Inr y"
  shows "well_shaped y"
    and "ncols x = ncols (weight lin)"
    and "broadcast_dim (nrows y) (nrows x) = Some (nrows y)"
    and "broadcast_dim (ncols y) (nrows (weight lin)) = Some (ncols y)"
  using assms
  by (auto simp: Linear_call_def matmul_def transpose_t_def tensor_add_def broadcast_dim_def
           split: if_splits option.splits)

lemma from_linear_plain:
  assumes "from_linear ext (Linear lin) r alpha dropout base_scale = Inr l"
  shows "linear_layer l = Linear lin"
    and "lora_b l = zeros (nat r) (nrows (weight lin))"
    and "nrows (lora_a l) = ncols (weight lin)"
    and "ncols (lora_a l) = nat r"
    and "0 < r"
  using assms
  by (auto simp: from_linear_def LoRALinear_init_def nn_Linear_def Let_def uniform_def
           split: sum.splits if_splits)

lemma from_linear_small:
  "from_linear lossless_mlx (Linear small_linear) 2 16 (1 / 20) 10 = Inr fresh_adapter"
  by (simp add: from_linear_def LoRALinear_init_def nn_Linear_def lossless_mlx_def
        small_linear_def fresh_adapter_def uniform_def zeros_def mk_def upt_conv_Cons)

lemma Linear_call_small:
  "Linear_call small_linear (Tensor 1 1 [[5]]) = Inr (Tensor 1 2 [[16, 22]])"
  by (simp add: Linear_call_def small_linear_def matmul_def transpose_t_def tensor_add_def
        broadcast_dim_def broadcast_index_def mk_def entry_def upt_conv_Cons)

text \<open>
  Claim C2. An adapter freshly built by \<open>from_linear\<close> around a plain linear layer (factor B
  all zeros) returns, for every input, in and out of training mode and for every dropout
  mask, exactly what the wrapped layer returns, an exception of the wrapped layer included.
\<close>

theorem fresh_adapter_is_noop:
  assumes "from_linear ext (Linear lin) r alpha dropout base_scale = Inr l"
  shows "LoRALinear_call ext l tr keep x = Linear_call lin x"
proof (cases "Linear_call lin x")
  case (Inl e)
  then show ?thesis
    by (simp add: LoRALinear_call_def base_call_def from_linear_plain(1)[OF assms])
next
  case (Inr y)
  note sh = Linear_call_shape[OF Inr]
  note fl = from_linear_plain[OF assms]
  have xa: "matmul (Dropout_call (lora_dropout l) tr keep x) (lora_a l)
            = Inr (mk (nrows x) (nat r)
                 (\<lambda>i j. \<Sum>k\<leftarrow>[0..<ncols x].
                    entry (Dropout_call (lora_dropout l) tr keep x) i k * entry (lora_a l) k j))"
    using sh(2) fl(3,4) by (simp add: matmul_def)
  show ?thesis
    using Inr sh fl(1,2)
    by (simp add: LoRALinear_call_def base_call_def xa matmul_zeros tensor_add_zeros)
qed

theorem fresh_adapter_is_noop_witness:
  "from_linear lossless_mlx (Linear small_linear) 2 16 (1 / 20) 10 = Inr fresh_adapter
   \<and> LoRALinear_call lossless_mlx fresh_adapter True (\<lambda>i j. True) (Tensor 1 1 [[5]])
       = Inr (Tensor 1 2 [[16, 22]])"
proof -
  have "LoRALinear_call lossless_mlx fresh_adapter True (\<lambda>i j. True) (Tensor 1 1 [[5]])
        = Linear_call small_linear (Tensor 1 1 [[5]])"
    by (rule fresh_adapter_is_noop [OF from_linear_small])
  then show ?thesis
    unfolding Linear_call_small by (rule conjI [OF from_linear_small])
qed

text \<open>The merge of an adapter around a plain layer, with factors that fit the weight.\<close>

lemma merge_plain:
  assumes "linear_layer l = Linear lin"
    and "nrows (lora_a l) = ncols (weight lin)"
    and "ncols (lora_a l) = nrows (lora_b l)"
    and "ncols (lora_b l) = nrows (weight lin)"
  shows "merge ext l = Inr (Linear (lin\<lparr>weight := merged_weight_spec l (weight lin)\<rparr>))"
proof -
  let ?ab = "mk (nrows (lora_a l)) (ncols (lora_b l))
               (\<lambda>i j. \<Sum>k\<leftarrow>[0..<ncols (lora_a l)]. entry (lora_a l) i k * entry (lora_b l) k j)"
  have ab: "matmul (lora_a l) (lora_b l) = Inr ?ab"
    using assms(3) by (simp add: matmul_def)
  have "tensor_add (weight lin) (tensor_scale (scale l) (transpose_t ?ab))
        = Inr (merged_weight_spec l (weight lin))"
    using assms(2,4)
    by (auto simp: tensor_add_def tensor_scale_def transpose_t_def merged_weight_spec_def
             intro!: mk_cong)
  then show ?thesis
    using assms(1) ab by (simp add: merge_def)
qed

text \<open>An adapter built by \<open>from_linear\<close> around a plain layer can be merged.\<close>

lemma from_linear_plain_mergeable:
  assumes "from_linear ext (Linear lin) r alpha dropout base_scale = Inr l"
  shows "mergeable ext l"
proof -
  note fl = from_linear_plain[OF assms]
  have "merge ext l = Inr (Linear (lin\<lparr>weight := merged_weight_spec l (weight lin)\<rparr>))"
    using fl by (intro merge_plain) simp_all
  then show ?thesis by (simp add: mergeable_def)
qed

text \<open>
  Claim C3. For an adapter around a plain linear layer whose factors fit the wrapped weight
  (A of shape \<open>(input, rank)\<close>, B of shape \<open>(rank, output)\<close>, as \<open>from_linear\<close> builds them),
  \<open>merge\<close> returns the wrapped layer itself with its weight replaced by the weight plus
  \<open>scale * (A @ B)\<^sup>T\<close>; the bias, like every other field, is the wrapped layer's. Arithmetic
  is exact, so the sum is met exactly.
\<close>

theorem merge_plain_adds_correction:
  assumes "linear_layer l = Linear lin"
    and "nrows (lora_a l) = ncols (weight lin)"
    and "ncols (lora_a l) = nrows (lora_b l)"
    and "ncols (lora_b l) = nrows (weight lin)"
  shows "merge ext l = Inr (Linear (lin\<lparr>weight := merged_weight_spec l (weight lin)\<rparr>))
         \<and> bias (lin\<lparr>weight := merged_weight_spec l (weight lin)\<rparr>) = bias lin"
  using merge_plain [OF assms] by simp

theorem merge_plain_adds_correction_witness:
  "merge lossless_mlx trained_adapter
   = Inr (Linear \<lparr>weight = Tensor 2 1 [[3 + 80 * 1], [4 + 80 * 2]],
                   bias = Some (Tensor 1 2 [[1, 2]])\<rparr>)"
  using merge_plain_adds_correction [of trained_adapter small_linear lossless_mlx]
  by (simp add: trained_adapter_def fresh_adapter_def small_linear_def merged_weight_spec_def
        mk_def entry_def upt_conv_Cons)

section \<open>Merging an adapter around a quantized layer\<close>

text \<open>
  Claim C1. The claim asks that the layer \<open>merge\<close> returns for a quantized wrapped layer be
  quantized from the merged weight. The source computes the merged weight and then quantizes
  a layer it has just constructed, to which the merged weight is never assigned. With a
  quantizer that loses nothing, the wrapped weight \<open>[[3], [4]]\<close>, \<open>A = [[1, 1]]\<close>,
  \<open>B = [[1, 0], [0, 2]]\<close> and scale 80, the merged weight is \<open>[[83], [164]]\<close>, but the
  returned layer dequantizes to the freshly drawn \<open>[[1], [1]]\<close>, and its bias is the fresh
  one as well.
\<close>

theorem merge_quantized_discards_merged_weight:
  "merge lossless_mlx quantized_adapter
   = Inr (QuantizedLinear
        \<lparr>qweight = Tensor 2 1 [[1], [1]], scales = zeros 0 0, biases = zeros 0 0,
         group_size = 64, bits = 4, qbias = Some (Tensor 1 2 [[1, 1]])\<rparr>)
   \<and> mx_dequantize lossless_mlx (Tensor 2 1 [[1], [1]]) (zeros 0 0) (zeros 0 0) 64 4
       = Inr (Tensor 2 1 [[1], [1]])
   \<and> mx_dequantize lossless_mlx (Tensor 2 1 [[3], [4]]) (zeros 0 0) (zeros 0 0) 64 4
       = Inr (Tensor 2 1 [[3], [4]])
   \<and> merged_weight_spec quantized_adapter (Tensor 2 1 [[3], [4]]) = Tensor 2 1 [[83], [164]]"
  by (simp add: merge_def quantized_adapter_def trained_adapter_def fresh_adapter_def
        lossless_mlx_def matmul_def transpose_t_def tensor_add_def tensor_scale_def
        broadcast_dim_def broadcast_index_def nn_Linear_def uniform_def
        QuantizedLinear_from_linear_def merged_weight_spec_def mk_def entry_def upt_conv_Cons)

text \<open>The returned layer does not depend on the values of factor B or on the scale.\<close>

lemma merge_quantized_ignores_factors:
  assumes "linear_layer l = QuantizedLinear q"
    and "nrows b' = nrows (lora_b l)" and "ncols b' = ncols (lora_b l)"
  shows "merge ext (l\<lparr>lora_b := b', scale := s'\<rparr>) = merge ext l"
  using assms
  by (auto simp: merge_def matmul_def tensor_add_def tensor_scale_def transpose_t_def
           split: sum.splits option.splits if_splits)

section \<open>Properties of quantize\<close>

lemma predicate_None:
  "linear_class_predicate None leaf =
     (case snd leaf of
        Base (Linear lin) \<Rightarrow> if nrows (weight lin) \<noteq> 8 then Inl TypeError else Inr False
      | _ \<Rightarrow> Inr False)"
  by (auto simp: linear_class_predicate_def split: module.splits base_layer.splits)

lemma quantize_leaves_None:
  "quantize_leaves ext gs b (linear_class_predicate None) nm =
     (if eligible nm then Inl TypeError else Inr (snd nm))"
  by (auto simp: quantize_leaves_def quantize_if_linear_def predicate_None eligible_def
           split: module.splits base_layer.splits)

lemma quantize_module_None:
  "quantize_module ext gs b (linear_class_predicate None) ms =
     (if list_ex eligible ms then Inl TypeError else Inr ms)"
  by (induction ms) (auto simp: quantize_leaves_None)

text \<open>
  Claim C9, as the code has it. On a model that is not yet quantized, \<open>quantize\<close> with
  \<open>excluded\<close> left at \<open>None\<close> raises \<open>TypeError\<close> exactly when the model has a plain linear layer
  whose output width is not 8 among its leaves, in the tree itself or wrapped by an adapter;
  otherwise it returns normally. In both cases no module has been replaced, and the
  quantization descriptor is stored. On a model with such a layer \<open>quantize\<close> returns
  normally only when \<open>excluded\<close> is a list.
\<close>

theorem quantize_without_excluded_fails:
  assumes "quantization s = None"
  shows "(list_ex eligible (modules s) \<longrightarrow>
            quantize ext gs b None s = (s\<lparr>quantization := Some (gs, b)\<rparr>, Some TypeError))
         \<and> (\<not> list_ex eligible (modules s) \<longrightarrow>
            quantize ext gs b None s = (s\<lparr>quantization := Some (gs, b)\<rparr>, None))
         \<and> modules (fst (quantize ext gs b None s)) = modules s
         \<and> (list_ex eligible (modules s) \<and> snd (quantize ext gs b excluded s) = None \<longrightarrow>
              excluded \<noteq> None)"
  using assms by (cases excluded) (auto simp: quantize_def quantize_module_None Let_def)

theorem quantize_without_excluded_fails_witness:
  "quantize lossless_mlx 64 4 None wrapped_model
     = (wrapped_model\<lparr>quantization := Some (64, 4)\<rparr>, Some TypeError)
   \<and> quantize lossless_mlx 64 4 None small_model
     = (small_model\<lparr>quantization := Some (64, 4)\<rparr>, Some TypeError)"
proof -
  have w: "quantization wrapped_model = None" "list_ex eligible (modules wrapped_model)"
    by (simp_all add: wrapped_model_def eligible_def fresh_adapter_def small_linear_def)
  have m: "quantization small_model = None" "list_ex eligible (modules small_model)"
    by (simp_all add: small_model_def eligible_def small_linear_def)
  from quantize_without_excluded_fails [OF w(1), of lossless_mlx 64 4]
    quantize_without_excluded_fails [OF m(1), of lossless_mlx 64 4] w(2) m(2)
  show ?thesis by simp
qed

text \<open>
  The claim as stated covers every model. On a model whose only linear layer has output
  width 8 the membership test is never reached, and \<open>quantize\<close> returns normally with
  \<open>excluded = None\<close>.
\<close>

theorem quantize_without_excluded_succeeds:
  "quantize lossless_mlx 64 4 None gate_only_model
   = (gate_only_model\<lparr>quantization := Some (64, 4)\<rparr>, None)"
  by (simp add: quantize_def quantize_module_None gate_only_model_def eligible_def Let_def)

text \<open>
  With a list of names the membership test never raises: \<open>quantize\<close> returns normally
  whenever the quantization kernel does.
\<close>

lemma predicate_excluded:
  "\<exists>sel. linear_class_predicate (Some names) leaf = Inr sel
         \<and> (sel \<longrightarrow> (\<exists>lin. snd leaf = Base (Linear lin)))"
  by (auto simp: linear_class_predicate_def split: module.splits base_layer.splits)

lemma quantize_if_linear_excluded_returns:
  assumes "\<And>w. \<exists>q. mx_quantize ext w gs b = Inr q"
  shows "\<exists>m'. quantize_if_linear ext gs b (linear_class_predicate (Some names)) leaf = Inr m'"
proof -
  obtain sel where sel: "linear_class_predicate (Some names) leaf = Inr sel"
    and lin: "sel \<longrightarrow> (\<exists>lin. snd leaf = Base (Linear lin))"
    using predicate_excluded by blast
  show ?thesis
  proof (cases sel)
    case True
    with lin obtain l where l: "snd leaf = Base (Linear l)" by blast
    obtain q where "mx_quantize ext (weight l) gs b = Inr q" using assms by blast
    then have "\<exists>m'. quantize_leaf ext gs b (snd leaf) = Inr m'"
      by (cases q) (simp add: l quantize_leaf_def QuantizedLinear_from_linear_def)
    then show ?thesis using sel True by (simp add: quantize_if_linear_def)
  next
    case False
    then show ?thesis using sel by (simp add: quantize_if_linear_def)
  qed
qed

lemma quantize_leaves_excluded_returns:
  assumes "\<And>w. \<exists>q. mx_quantize ext w gs b = Inr q"
  shows "\<exists>m'. quantize_leaves ext gs b (linear_class_predicate (Some names)) nm = Inr m'"
proof (cases "snd nm")
  case (LoRA l)
  obtain inner where
    "quantize_if_linear ext gs b (linear_class_predicate (Some names))
       (fst nm, Base (linear_layer l)) = Inr inner"
    using quantize_if_linear_excluded_returns[OF assms] by blast
  moreover obtain dropout where
    "quantize_if_linear ext gs b (linear_class_predicate (Some names)) (fst nm, Other)
       = Inr dropout"
    using quantize_if_linear_excluded_returns[OF assms] by blast
  ultimately show ?thesis using LoRA by (simp add: quantize_leaves_def)
next
  case (Base bl)
  then show ?thesis
    using quantize_if_linear_excluded_returns[OF assms, of names nm]
    by (simp add: quantize_leaves_def)
next
  case Other
  then show ?thesis
    using quantize_if_linear_excluded_returns[OF assms, of names nm]
    by (simp add: quantize_leaves_def)
qed

lemma quantize_module_excluded_returns:
  assumes "\<And>w. \<exists>q. mx_quantize ext w gs b = Inr q"
  shows "\<exists>ms'. quantize_module ext gs b (linear_class_predicate (Some names)) ms = Inr ms'"
proof (induction ms)
  case Nil
  then show ?case by simp
next
  case (Cons nm ms)
  then obtain ms' where
    "quantize_module ext gs b (linear_class_predicate (Some names)) ms = Inr ms'"
    by blast
  moreover obtain m' where
    "quantize_leaves ext gs b (linear_class_predicate (Some names)) nm = Inr m'"
    using quantize_leaves_excluded_returns[OF assms] by blast
  ultimately show ?case by simp
qed

lemma quantize_with_excluded_returns:
  assumes "\<And>w. \<exists>q. mx_quantize ext w gs b = Inr q"
  shows "snd (quantize ext gs b (Some names) s) = None"
proof -
  obtain ms' where "quantize_module ext gs b (linear_class_predicate (Some names)) (modules s) = Inr ms'"
    using quantize_module_excluded_returns[OF assms] by blast
  then show ?thesis by (simp add: quantize_def Let_def)
qed

section \<open>Properties of generate\<close>

lemma emitted_yield [simp]: "emitted (yield dec tokens run) = emitted run @ tokens"
  by (simp add: emitted_def yield_def)

lemma sampled_yield [simp]: "sampled (yield dec tokens run) = sampled run"
  by (simp add: yield_def)

lemma raised_yield [simp]: "raised (yield dec tokens run) = raised run"
  by (simp add: yield_def)

lemma stats_yield [simp]:
  "stats_num_tokens (yield dec tokens run) = stats_num_tokens run + length tokens"
  by (simp add: yield_def)

lemma emitted_sampled_update [simp]: "emitted (run\<lparr>sampled := k\<rparr>) = emitted run"
  by (simp add: emitted_def)

lemma emitted_raised_update [simp]: "emitted (run\<lparr>raised := e\<rparr>) = emitted run"
  by (simp add: emitted_def)

declare generate_loop.simps [simp del]

lemma generate_loop_raise:
  "nxt g = Inl e \<Longrightarrow> generate_loop nxt eos flush dec remaining g tokens run = run\<lparr>raised := Some e\<rparr>"
  by (subst generate_loop.simps) simp

lemma generate_loop_exhausted:
  "nxt g = Inr (token, g') \<Longrightarrow>
   generate_loop nxt eos flush dec 0 g tokens run = yield dec tokens (run\<lparr>sampled := Suc (sampled run)\<rparr>)"
  by (subst generate_loop.simps) simp

lemma generate_loop_step:
  "nxt g = Inr (token, g') \<Longrightarrow>
   generate_loop nxt eos flush dec (Suc n) g tokens run =
     (if token = eos then yield dec tokens (run\<lparr>sampled := Suc (sampled run)\<rparr>)
      else if flush = 0 then run\<lparr>sampled := Suc (sampled run), raised := Some ZeroDivisionError\<rparr>
      else if int (length (tokens @ [token])) mod flush = 0
      then generate_loop nxt eos flush dec n g' []
             (yield dec (tokens @ [token]) (run\<lparr>sampled := Suc (sampled run)\<rparr>))
      else generate_loop nxt eos flush dec n g' (tokens @ [token])
             (run\<lparr>sampled := Suc (sampled run)\<rparr>))"
  by (subst generate_loop.simps) (simp add: Let_def)

lemma generate_loop_invariant:
  assumes "eos \<notin> set (emitted run)" and "eos \<notin> set tokens"
    and "stats_num_tokens run = length (emitted run)"
    and "raised run = None"
  shows "sampled (generate_loop nxt eos flush dec remaining g tokens run)
           \<le> sampled run + remaining + 1
       \<and> eos \<notin> set (emitted (generate_loop nxt eos flush dec remaining g tokens run))
       \<and> length (emitted (generate_loop nxt eos flush dec remaining g tokens run))
           \<le> length (emitted run) + length tokens + remaining
       \<and> stats_num_tokens (generate_loop nxt eos flush dec remaining g tokens run)
           = length (emitted (generate_loop nxt eos flush dec remaining g tokens run))
       \<and> (raised (generate_loop nxt eos flush dec remaining g tokens run) = None \<longrightarrow>
            sampled (generate_loop nxt eos flush dec remaining g tokens run)
              + length (emitted run) + length tokens
            = Suc (sampled run
                   + length (emitted (generate_loop nxt eos flush dec remaining g tokens run))))"
  using assms
proof (induction remaining arbitrary: g tokens run)
  case 0
  then show ?case
    by (cases "nxt g") (auto simp: generate_loop_raise generate_loop_exhausted)
next
  case (Suc n)
  show ?case
  proof (cases "nxt g")
    case (Inl e)
    then show ?thesis using Suc.prems by (simp add: generate_loop_raise)
  next
    case (Inr p)
    obtain token g' where p: "p = (token, g')" by (cases p)
    let ?run1 = "run\<lparr>sampled := Suc (sampled run)\<rparr>"
    consider (eos) "token = eos" | (zero) "token \<noteq> eos" "flush = 0"
      | (flush) "token \<noteq> eos" "flush \<noteq> 0" "int (length (tokens @ [token])) mod flush = 0"
      | (keep) "token \<noteq> eos" "flush \<noteq> 0" "int (length (tokens @ [token])) mod flush \<noteq> 0"
      by blast
    then show ?thesis
    proof cases
      case eos
      then show ?thesis using Inr p Suc.prems by (simp add: generate_loop_step)
    next
      case zero
      then show ?thesis using Inr p Suc.prems by (simp add: generate_loop_step)
    next
      case flush
      have eq: "generate_loop nxt eos flush dec (Suc n) g tokens run
                = generate_loop nxt eos flush dec n g' [] (yield dec (tokens @ [token]) ?run1)"
        using Inr p flush by (simp add: generate_loop_step)
      have "eos \<notin> set (emitted (yield dec (tokens @ [token]) ?run1))"
        "eos \<notin> set []"
        "stats_num_tokens (yield dec (tokens @ [token]) ?run1)
           = length (emitted (yield dec (tokens @ [token]) ?run1))"
        "raised (yield dec (tokens @ [token]) ?run1) = None"
        using Suc.prems flush(1) by auto
      from Suc.IH[OF this, of g'] show ?thesis
        unfolding eq by auto
    next
      case keep
      have eq: "generate_loop nxt eos flush dec (Suc n) g tokens run
                = generate_loop nxt eos flush dec n g' (tokens @ [token]) ?run1"
        using Inr p keep by (simp add: generate_loop_step)
      have "eos \<notin> set (emitted ?run1)" "eos \<notin> set (tokens @ [token])"
        "stats_num_tokens ?run1 = length (emitted ?run1)" "raised ?run1 = None"
        using Suc.prems keep(1) by (auto simp: emitted_def)
      from Suc.IH[OF this, of g'] show ?thesis
        unfolding eq by auto
    qed
  qed
qed

lemma run_counting:
  "generate small_tokenizer counting_forward (\<lambda>k l. (0, k)) () ''a'' 0 5 2
   = \<lparr>chunks = [([2, 3], ''xx'', 2), ([], [], 2)], stats_num_tokens = 2, sampled = 3, raised = None\<rparr>"
  by code_simp

lemma run_constant:
  "generate small_tokenizer constant_forward (\<lambda>k l. (0, k)) () ''a'' 0 2 5
   = \<lparr>chunks = [([1, 1], ''xx'', 2)], stats_num_tokens = 2, sampled = 3, raised = None\<rparr>"
  by code_simp

lemma run_zero:
  "generate small_tokenizer constant_forward (\<lambda>k l. (0, k)) () ''a'' 0 0 5
   = \<lparr>chunks = [([], [], 0)], stats_num_tokens = 0, sampled = 1, raised = None\<rparr>"
  by code_simp

text \<open>
  Claim C4, as the code has it. A run of \<open>generate\<close> takes at most \<open>num_tokens + 1\<close> tokens
  from the sampler (the loop body runs at most \<open>num_tokens\<close> times; \<open>zip\<close> has then already
  taken one more token, which is dropped); the end-of-sequence token is in no chunk; the
  chunks hold at most \<open>num_tokens\<close> tokens in total, which is also the final
  \<open>stats["num_tokens"]\<close>; and a run that ends without an exception has sampled exactly one
  token more than it emitted, the end-of-sequence token or the dropped one. The function is
  total: the loop is a recursion on what is left of the range.
\<close>

theorem generate_bounded:
  "sampled (generate tok forward categorical key prompt temp max_tokens flush) \<le> nat max_tokens + 1
   \<and> eos_id tok \<notin> set (emitted (generate tok forward categorical key prompt temp max_tokens flush))
   \<and> length (emitted (generate tok forward categorical key prompt temp max_tokens flush))
        \<le> nat max_tokens
   \<and> stats_num_tokens (generate tok forward categorical key prompt temp max_tokens flush)
        = length (emitted (generate tok forward categorical key prompt temp max_tokens flush))
   \<and> (raised (generate tok forward categorical key prompt temp max_tokens flush) = None \<longrightarrow>
        sampled (generate tok forward categorical key prompt temp max_tokens flush)
        = Suc (length (emitted (generate tok forward categorical key prompt temp max_tokens flush))))"
  using generate_loop_invariant
    [of "eos_id tok" "\<lparr>chunks = [], stats_num_tokens = 0, sampled = 0, raised = None\<rparr>" "[]"
        "generate_step forward temp categorical (encode tok prompt)" flush "decode tok"
        "nat max_tokens" "(NotStarted, key)"]
  by (simp add: generate_def emitted_def)


theorem generate_bounded_witness:
  "sampled (generate small_tokenizer counting_forward (\<lambda>k l. (0, k)) () ''a'' 0 5 2) = 3
   \<and> emitted (generate small_tokenizer counting_forward (\<lambda>k l. (0, k)) () ''a'' 0 5 2) = [2, 3]
   \<and> raised (generate small_tokenizer counting_forward (\<lambda>k l. (0, k)) () ''a'' 0 5 2) = None"
  using generate_bounded
    [of small_tokenizer counting_forward "\<lambda>k l. (0, k)" "()" "''a''" 0 5 2]
  unfolding run_counting by (simp add: emitted_def)

text \<open>
  The claim as stated bounds the sampling steps by \<open>num_tokens\<close>. With a model that never
  produces the end-of-sequence token and \<open>num_tokens = 2\<close>, three tokens are sampled for the
  two that are emitted.
\<close>

theorem generate_samples_one_more:
  "\<not> sampled (generate small_tokenizer constant_forward (\<lambda>k l. (0, k)) () ''a'' 0 2 5) \<le> nat 2"
  unfolding run_constant by simp

lemma generate_loop_related:
  assumes step: "\<And>g g'. R g g' \<Longrightarrow>
                   (\<exists>e. nxt g = Inl e \<and> nxt' g' = Inl e)
                 \<or> (\<exists>t h h'. nxt g = Inr (t, h) \<and> nxt' g' = Inr (t, h') \<and> R h h')"
    and "R g g'"
  shows "generate_loop nxt eos flush dec remaining g tokens run
         = generate_loop nxt' eos flush dec remaining g' tokens run"
  using assms(2)
proof (induction remaining arbitrary: g g' tokens run)
  case 0
  with step[OF 0] show ?case
    by (auto simp: generate_loop_raise generate_loop_exhausted)
next
  case (Suc n)
  from step[OF Suc.prems] show ?case
  proof (elim disjE exE conjE)
    fix e assume "nxt g = Inl e" "nxt' g' = Inl e"
    then show ?thesis by (simp add: generate_loop_raise)
  next
    fix t h h' assume a: "nxt g = Inr (t, h)" "nxt' g' = Inr (t, h')" "R h h'"
    show ?thesis
      using a(1,2) Suc.IH[OF a(3)] by (simp add: generate_loop_step)
  qed
qed

lemma argmax_from_result:
  "(argmax_from best v i xs = best \<and> (\<forall>x\<in>set xs. x \<le> v))
   \<or> (\<exists>r<length xs. argmax_from best v i xs = i + r \<and> v < xs ! r
        \<and> (\<forall>k<length xs. xs ! k \<le> xs ! r) \<and> (\<forall>k<r. xs ! k < xs ! r))"
proof (induction xs arbitrary: best v i)
  case Nil
  then show ?case by simp
next
  case (Cons x xs)
  have later: "\<exists>r<length (x # xs). m = i + r \<and> v < (x # xs) ! r
        \<and> (\<forall>k<length (x # xs). (x # xs) ! k \<le> (x # xs) ! r)
        \<and> (\<forall>k<r. (x # xs) ! k < (x # xs) ! r)"
    if r: "r < length xs" "m = Suc i + r" "w < xs ! r" "\<forall>k<length xs. xs ! k \<le> xs ! r"
      "\<forall>k<r. xs ! k < xs ! r" and w: "v \<le> w" "x \<le> w" for m r w
  proof (intro exI[of _ "Suc r"] conjI allI impI)
    fix k assume "k < length (x # xs)"
    then show "(x # xs) ! k \<le> (x # xs) ! Suc r"
      using r w by (cases k) auto
  next
    fix k assume "k < Suc r"
    then show "(x # xs) ! k < (x # xs) ! Suc r"
      using r w by (cases k) auto
  qed (use r w in auto)
  show ?case
  proof (cases "v < x")
    case True
    from Cons[of i x "Suc i"] show ?thesis
    proof (elim disjE exE conjE)
      assume a: "argmax_from i x (Suc i) xs = i" "\<forall>y\<in>set xs. y \<le> x"
      have "\<exists>r<length (x # xs). argmax_from best v i (x # xs) = i + r \<and> v < (x # xs) ! r
        \<and> (\<forall>k<length (x # xs). (x # xs) ! k \<le> (x # xs) ! r)
        \<and> (\<forall>k<r. (x # xs) ! k < (x # xs) ! r)"
        using True a by (intro exI[of _ 0]) (auto simp: nth_Cons split: nat.splits)
      then show ?thesis ..
    next
      fix r assume "r < length xs" "argmax_from i x (Suc i) xs = Suc i + r" "x < xs ! r"
        "\<forall>k<length xs. xs ! k \<le> xs ! r" "\<forall>k<r. xs ! k < xs ! r"
      from later[OF this] True show ?thesis by auto
    qed
  next
    case False
    from Cons[of best v "Suc i"] show ?thesis
    proof (elim disjE exE conjE)
      assume "argmax_from best v (Suc i) xs = best" "\<forall>y\<in>set xs. y \<le> v"
      then show ?thesis using False by auto
    next
      fix r assume "r < length xs" "argmax_from best v (Suc i) xs = Suc i + r" "v < xs ! r"
        "\<forall>k<length xs. xs ! k \<le> xs ! r" "\<forall>k<r. xs ! k < xs ! r"
      from later[OF this] False show ?thesis by auto
    qed
  qed
qed

text \<open>\<open>argmax\<close> returns the first index at which the logits are greatest.\<close>

lemma argmax_first_maximum:
  assumes "argmax logits = Inr i"
  shows "i < length logits \<and> (\<forall>j<length logits. logits ! j \<le> logits ! i)
         \<and> (\<forall>j<i. logits ! j < logits ! i)"
proof (cases logits)
  case Nil
  with assms show ?thesis by (simp add: argmax_def)
next
  case (Cons x xs)
  with assms have i: "argmax_from 0 x 1 xs = i" by (simp add: argmax_def)
  from argmax_from_result[of 0 x 1 xs] show ?thesis
  proof (elim disjE exE conjE)
    assume "argmax_from 0 x 1 xs = 0" "\<forall>y\<in>set xs. y \<le> x"
    then show ?thesis using i unfolding Cons by (auto simp: nth_Cons split: nat.splits)
  next
    fix r assume r: "r < length xs" "argmax_from 0 x 1 xs = 1 + r" "x < xs ! r"
      "\<forall>k<length xs. xs ! k \<le> xs ! r" "\<forall>k<r. xs ! k < xs ! r"
    have "i = Suc r" using i r(2) by simp
    then show ?thesis
      using r unfolding Cons by (auto simp: nth_Cons less_Suc_eq_0_disj split: nat.splits)
  qed
qed

lemma sample_greedy:
  "sample 0 categorical key logits =
     (case argmax logits of Inl e \<Rightarrow> Inl e | Inr i \<Rightarrow> Inr (int i, key))"
  by (simp add: sample_def)


lemma LoRALinear_call_outside_training:
  "LoRALinear_call ext l False keep x = LoRALinear_call ext l False keep' x"
  by (simp add: LoRALinear_call_def Dropout_call_def cong: sum.case_cong)

lemma adapter_forward_outside_training:
  "forward_output (adapter_forward l False seed tokens cache)
   = forward_output (adapter_forward l False seed' tokens cache)"
  by (simp add: adapter_forward_def forward_output_def
        LoRALinear_call_outside_training[of _ _ "\<lambda>i j. even seed" _ "\<lambda>i j. even seed'"]
      split: sum.splits)

lemma run_adapter_training_even:
  "generate two_token_tokenizer (adapter_forward dropout_adapter True) (\<lambda>k l. (0, k)) 0 ''a'' 0 2 5
   = \<lparr>chunks = [([0, 0], ''xx'', 2)], stats_num_tokens = 2, sampled = 3, raised = None\<rparr>"
  by code_simp

lemma run_adapter_training_odd:
  "generate two_token_tokenizer (adapter_forward dropout_adapter True) (\<lambda>k l. (0, k)) 1 ''a'' 0 2 5
   = \<lparr>chunks = [([1, 1], ''xx'', 2)], stats_num_tokens = 2, sampled = 3, raised = None\<rparr>"
  by code_simp

lemma run_adapter_outside_training:
  "generate two_token_tokenizer (adapter_forward dropout_adapter False) (\<lambda>k l. (0, k)) 0 ''a'' 0 2 5
   = \<lparr>chunks = [([0, 0], ''xx'', 2)], stats_num_tokens = 2, sampled = 3, raised = None\<rparr>"
  by code_simp

text \<open>
  Claim C5, as the code has it. With temperature zero every token is the argmax of the
  logits and \<open>sample\<close> never reads the random key. When in addition the forward pass of the
  model returns the same logits and cache whatever the random key, the run does not depend
  on the random source: the chunks, the counters and the exception are the same for every
  key and every categorical sampler. The forward pass of an adapter is of that kind outside
  training mode, where its dropout is the identity.
\<close>

theorem generate_greedy_deterministic:
  fixes forward :: "'r \<Rightarrow> int list \<Rightarrow> 'c option \<Rightarrow> error + (real list \<times> 'c) \<times> 'r"
  assumes "\<forall>k k' tokens cache.
             forward_output (forward k tokens cache) = forward_output (forward k' tokens cache)"
  shows "generate tok forward categorical key prompt 0 max_tokens flush
         = generate tok forward categorical' key' prompt 0 max_tokens flush
         \<and> sample 0 categorical key logits
           = (case argmax logits of Inl e \<Rightarrow> Inl e | Inr i \<Rightarrow> Inr (int i, key))
         \<and> LoRALinear_call ext l False keep x = LoRALinear_call ext l False keep' x"
proof (intro conjI)
  show "generate tok forward categorical key prompt 0 max_tokens flush
        = generate tok forward categorical' key' prompt 0 max_tokens flush"
    unfolding generate_def
  proof (rule generate_loop_related [where R = "\<lambda>g g'. fst g = fst g'"])
    show "fst (NotStarted, key) = fst (NotStarted, key')" by simp
  next
    fix g g' :: "'c generate_step_state \<times> 'r"
    assume same: "fst g = fst g'"
    obtain st k where g: "g = (st, k)" by (cases g)
    obtain k' where g': "g' = (st, k')" using same g by (cases g') simp
    have out: "forward_output (forward k ts c) = forward_output (forward k' ts c)" for ts c
      using assms by blast
    show "(\<exists>e. generate_step forward 0 categorical (encode tok prompt) g = Inl e
                \<and> generate_step forward 0 categorical' (encode tok prompt) g' = Inl e)
           \<or> (\<exists>t h h'. generate_step forward 0 categorical (encode tok prompt) g = Inr (t, h)
                \<and> generate_step forward 0 categorical' (encode tok prompt) g' = Inr (t, h')
                \<and> fst h = fst h')"
    proof (cases st)
      case NotStarted
      from out[of "encode tok prompt" None] show ?thesis
        by (auto simp: g g' NotStarted generate_step_def sample_greedy forward_output_def
                 split: sum.splits prod.splits)
    next
      case (Yielded y cache)
      from out[of "[y]" "Some cache"] show ?thesis
        by (auto simp: g g' Yielded generate_step_def sample_greedy forward_output_def
                 split: sum.splits prod.splits)
    qed
  qed
next
  show "sample 0 categorical key logits
        = (case argmax logits of Inl e \<Rightarrow> Inl e | Inr i \<Rightarrow> Inr (int i, key))"
    by (rule sample_greedy)
next
  show "LoRALinear_call ext l False keep x = LoRALinear_call ext l False keep' x"
    by (rule LoRALinear_call_outside_training)
qed

theorem generate_greedy_deterministic_witness:
  "generate two_token_tokenizer (adapter_forward dropout_adapter False) (\<lambda>k l. (0, k)) 0 ''a'' 0 2 5
   = generate two_token_tokenizer (adapter_forward dropout_adapter False) (\<lambda>k l. (1, Suc k)) 1
       ''a'' 0 2 5
   \<and> emitted (generate two_token_tokenizer (adapter_forward dropout_adapter False)
        (\<lambda>k l. (1, Suc k)) 1 ''a'' 0 2 5) = [0, 0]"
proof -
  have independent: "\<forall>k k' tokens cache.
      forward_output (adapter_forward dropout_adapter False k tokens cache)
      = forward_output (adapter_forward dropout_adapter False k' tokens cache)"
    using adapter_forward_outside_training by blast
  from generate_greedy_deterministic [OF independent,
      of two_token_tokenizer "\<lambda>k l. (0, k)" 0 "''a''" 2 5 "\<lambda>k l. (1, Suc k)" 1, THEN conjunct1,
      symmetric]
  show ?thesis
    unfolding run_adapter_outside_training by (simp add: emitted_def)
qed

text \<open>
  The claim as stated covers every model state. In training mode, which \<open>init_lora\<close> turns
  on and \<open>generate\<close> does not leave, the dropout of an adapter draws from the random state:
  the same prompt and the same adapter give the tokens \<open>[0, 0]\<close> under one random key and
  \<open>[1, 1]\<close> under another, at temperature zero.
\<close>

theorem generate_greedy_depends_on_dropout:
  "generate two_token_tokenizer (adapter_forward dropout_adapter True) (\<lambda>k l. (0, k)) 0 ''a'' 0 2 5
   \<noteq> generate two_token_tokenizer (adapter_forward dropout_adapter True) (\<lambda>k l. (0, k)) 1 ''a'' 0 2 5"
  unfolding run_adapter_training_even run_adapter_training_odd by simp

section \<open>The LoRA lifecycle\<close>

lemma merge_modules_total:
  "list_all (\<lambda>(key, l). mergeable ext l) ls \<Longrightarrow> \<exists>merged. merge_modules ext ls = Inr merged"
  by (induction ls) (auto simp: mergeable_def split: sum.splits)

lemma init_lora_adapted: "lora s \<noteq> None \<Longrightarrow> init_lora ext n target r alpha dropout base_scale s = (s, None)"
  by (auto simp: init_lora_def)

lemma merge_and_unload_returns:
  "snd (merge_and_unload_lora ext s) = None \<Longrightarrow> unadapted (fst (merge_and_unload_lora ext s))"
  by (auto simp: merge_and_unload_lora_def unadapted_def split: sum.splits if_splits)

lemma merge_and_unload_total:
  assumes "lora s = None \<or> list_all (\<lambda>(key, l). mergeable ext l) (lora_modules s)"
  shows "snd (merge_and_unload_lora ext s) = None"
proof (cases "lora s = None")
  case True
  then show ?thesis by (simp add: merge_and_unload_lora_def)
next
  case False
  with assms obtain merged where "merge_modules ext (lora_modules s) = Inr merged"
    using merge_modules_total by blast
  then show ?thesis by (simp add: merge_and_unload_lora_def False)
qed

lemma wrap_modules_plain_mergeable:
  assumes "wrap_modules ext r alpha dropout base_scale ms = Inr ls"
    and "list_all (\<lambda>(key, m). \<exists>lin. m = Base (Linear lin)) ms"
  shows "list_all (\<lambda>(key, l). mergeable ext l) ls"
  using assms
proof (induction ms arbitrary: ls)
  case Nil
  then show ?case by simp
next
  case (Cons km ms)
  obtain key m where km: "km = (key, m)" by (cases km)
  from Cons.prems(2) km obtain lin where m: "m = Base (Linear lin)" by auto
  from Cons.prems(1) km m obtain l ls' where
    l: "from_linear ext (Linear lin) r alpha dropout base_scale = Inr l"
    and ls': "wrap_modules ext r alpha dropout base_scale ms = Inr ls'"
    and ls: "ls = (key, l) # ls'"
    by (auto simp: module_from_linear_def split: sum.splits)
  from Cons.IH[OF ls'] Cons.prems(2) have "list_all (\<lambda>(key, l). mergeable ext l) ls'"
    by simp
  with from_linear_plain_mergeable[OF l] ls show ?case by simp
qed

text \<open>
  When the selected modules are plain linear layers, the wrapper that \<open>init_lora\<close> returns
  is Adapted and \<open>merge_and_unload_lora\<close> brings it back to Unadapted.
\<close>

lemma init_then_merge_returns:
  assumes "lora s = None"
    and "target = ''all_linear'' \<or> target = ''query_value''"
    and "list_all (\<lambda>(key, m). (target = ''all_linear'' \<longrightarrow> is_linear_module m)
            \<and> (target = ''query_value'' \<longrightarrow> query_value_match key) \<longrightarrow> (\<exists>lin. m = Base (Linear lin))) (modules s)"
    and "init_lora ext n target r alpha dropout base_scale s = (s1, None)"
  shows "adapted s1 \<and> snd (merge_and_unload_lora ext s1) = None
         \<and> unadapted (fst (merge_and_unload_lora ext s1))"
proof -
  let ?sel = "if target = ''all_linear'' then filter (\<lambda>(key, m). is_linear_module m) (modules s)
              else filter (\<lambda>(key, m). query_value_match key) (modules s)"
  from assms(1,2,4) obtain ls where
    ls: "wrap_modules ext r alpha dropout base_scale ?sel = Inr ls"
    and s1: "lora_modules s1 = ls" "lora s1 \<noteq> None"
    by (auto simp: init_lora_def Let_def split: sum.splits if_splits)
  have "list_all (\<lambda>(key, m). \<exists>lin. m = Base (Linear lin)) ?sel"
    using assms(2,3) by (auto simp: list_all_iff)
  from wrap_modules_plain_mergeable[OF ls this] s1
  have "list_all (\<lambda>(key, l). mergeable ext l) (lora_modules s1)" by simp
  then show ?thesis
    using s1(2) merge_and_unload_total[of s1 ext] merge_and_unload_returns[of ext s1]
    by (simp add: adapted_def)
qed

text \<open>
  Claim C7. When the wrapper is Adapted (\<open>_lora\<close> is set), \<open>init_lora\<close> returns the wrapper
  unchanged. \<open>merge_and_unload_lora\<close> ends Unadapted (configuration cleared, adapter list
  empty, training mode off) whenever no adapter exists or every adapter's \<open>merge\<close> returns;
  when no adapter exists the modules are untouched.
\<close>

theorem lora_lifecycle:
  "(adapted s \<longrightarrow> init_lora ext n target r alpha dropout base_scale s = (s, None))
   \<and> (lora s = None \<or> list_all (\<lambda>(key, l). mergeable ext l) (lora_modules s) \<longrightarrow>
        snd (merge_and_unload_lora ext s) = None
        \<and> unadapted (fst (merge_and_unload_lora ext s)))
   \<and> (lora s = None \<longrightarrow>
        merge_and_unload_lora ext s = (s\<lparr>lora_modules := [], training := False\<rparr>, None))"
  using init_lora_adapted merge_and_unload_total merge_and_unload_returns
  by (auto simp: merge_and_unload_lora_def adapted_def)

lemma merge_trained:
  "merge lossless_mlx trained_adapter
   = Inr (Linear \<lparr>weight = Tensor 2 1 [[83], [164]], bias = Some (Tensor 1 2 [[1, 2]])\<rparr>)"
  by (simp add: merge_def trained_adapter_def fresh_adapter_def small_linear_def matmul_def
        transpose_t_def tensor_add_def tensor_scale_def broadcast_dim_def broadcast_index_def
        mk_def entry_def upt_conv_Cons)

lemma init_lora_plain_model:
  "init_lora lossless_mlx (-1) ''query_value'' 2 16 (1 / 20) 10 plain_model
   = (adapted_model\<lparr>modules := [([], Other), (''layers.0.attention.wq'', LoRA fresh_adapter)],
        lora_modules := [(''layers.0.attention.wq'', fresh_adapter)]\<rparr>, None)"
  by (simp add: init_lora_def plain_model_def adapted_model_def query_value_match_def ends_with_def
       module_from_linear_def from_linear_small update_modules_def Let_def)

theorem lora_lifecycle_witness:
  "init_lora lossless_mlx (-1) ''all_linear'' 8 16 (1 / 20) 10 adapted_model = (adapted_model, None)
   \<and> merge_and_unload_lora lossless_mlx adapted_model
       = (adapted_model
            \<lparr>modules := [([], Other),
                (''layers.0.attention.wq'',
                 Base (Linear \<lparr>weight = Tensor 2 1 [[83], [164]], bias = Some (Tensor 1 2 [[1, 2]])\<rparr>))],
             lora := None, lora_modules := [], training := False\<rparr>, None)
   \<and> merge_and_unload_lora lossless_mlx plain_model = (plain_model, None)"
proof -
  note l = lora_lifecycle [of adapted_model lossless_mlx "-1" "''all_linear''" 8 16 "1 / 20" 10]
  note p = lora_lifecycle [of plain_model lossless_mlx]
  have a: "adapted adapted_model" by (simp add: adapted_def adapted_model_def)
  have b: "merge_and_unload_lora lossless_mlx adapted_model
       = (adapted_model
            \<lparr>modules := [([], Other),
                (''layers.0.attention.wq'',
                 Base (Linear \<lparr>weight = Tensor 2 1 [[83], [164]], bias = Some (Tensor 1 2 [[1, 2]])\<rparr>))],
             lora := None, lora_modules := [], training := False\<rparr>, None)"
    by (simp add: merge_and_unload_lora_def adapted_model_def merge_trained update_modules_def)
  have c: "merge_and_unload_lora lossless_mlx plain_model = (plain_model, None)"
    using p by (simp add: plain_model_def)
  show ?thesis using l a b c by simp
qed

section \<open>Properties of evaluate\<close>

lemma evaluate_loop_acc:
  "evaluate_loop loss bs (ls, n) =
     (ls @ map (\<lambda>b. fst (loss b) * snd (loss b)) bs, n + (\<Sum>b\<leftarrow>bs. snd (loss b)))"
  by (induction bs arbitrary: ls n) (simp_all add: case_prod_unfold algebra_simps)

text \<open>
  Claim C6. Over the batches that \<open>evaluate\<close> draws, the first \<open>num_batches\<close> of the
  dataset's iterator, the result is the token-weighted average
  \<open>sum (loss_i * tokenCount_i) / sum tokenCount_i\<close>, whenever the token total is not zero.
  The function receives the loss at the current parameters and returns a number only: no
  parameter is updated. Two batches with token counts 10 and 20 and losses 2 and 3 give
  \<open>(2 * 10 + 3 * 20) / 30\<close>.
\<close>

theorem evaluate_token_weighted_average:
  assumes "1 \<le> num_batches"
    and "bs = take (nat num_batches) (iterate_batches ds batch_size)"
    and "(\<Sum>b\<leftarrow>bs. snd (loss b)) \<noteq> 0"
  shows "evaluate loss ds batch_size num_batches =
           Some ((\<Sum>b\<leftarrow>bs. fst (loss b) * snd (loss b)) / (\<Sum>b\<leftarrow>bs. snd (loss b)))"
  using assms by (simp add: evaluate_def zip_range_def evaluate_loop_acc)

theorem evaluate_token_weighted_average_witness:
  "evaluate (\<lambda>b. b)
     \<lparr>len = 2, iterate_batches = (\<lambda>n. [(2, 10), (3, 20)]), next_train_batch = (\<lambda>n k. None)\<rparr> 4 2
   = Some ((2 * 10 + 3 * 20) / 30)"
  using evaluate_token_weighted_average
    [of 2 "[(2, 10), (3, 20)]"
        "\<lparr>len = 2, iterate_batches = (\<lambda>n. [(2, 10), (3, 20)]), next_train_batch = (\<lambda>n k. None)\<rparr>"
        4 "\<lambda>b. b"]
  by simp

section \<open>Properties of train\<close>



lemma validate_no_callback:
  "validate eng dv batch_size vb None n st =
     (st\<lparr>written := written st @
          [ValidationLoss (n + 1) (evaluate (loss_fn eng (params st)) dv batch_size vb)]\<rparr>,
      Some TypeError)"
  by (simp add: validate_def Let_def)


lemma length_range [simp]: "length (range_list k) = nat k"
  by (simp add: range_list_def)




lemma epoch_iterations_first:
  assumes "1 \<le> epochs" and "1 \<le> iterations"
  shows "\<exists>rest. epoch_iterations epochs iterations = (0, 0) # rest"
proof -
  obtain e where e: "nat epochs = Suc e" using assms(1) by (cases "nat epochs") auto
  obtain i where i: "nat iterations = Suc i" using assms(2) by (cases "nat iterations") auto
  show ?thesis
    by (simp add: epoch_iterations_def range_list_def e i upt_conv_Cons del: upt_Suc)
qed

lemma train_step_first_no_callback:
  "snd (train_step eng dt dv batch_size iterations report_steps eval_steps None vb (0, 0) st) \<noteq> None
   \<and> length (steps (fst (train_step eng dt dv batch_size iterations report_steps eval_steps None vb (0, 0) st)))
       \<le> Suc (length (steps st))
   \<and> (report_steps \<noteq> 0 \<and> next_train_batch dt batch_size 0 \<noteq> None \<longrightarrow>
        snd (train_step eng dt dv batch_size iterations report_steps eval_steps None vb (0, 0) st)
          = Some TypeError
        \<and> steps (fst (train_step eng dt dv batch_size iterations report_steps eval_steps None vb (0, 0) st))
          = steps st @ [(0, 0)])"
  by (auto simp: train_step_def Let_def validate_no_callback split: option.splits prod.splits)

lemma epoch_iterations_empty:
  "epochs < 1 \<or> iterations < 1 \<Longrightarrow> epoch_iterations epochs iterations = []"
  by (auto simp: epoch_iterations_def range_list_def)

lemma train_first_step_no_callback:
  assumes "1 \<le> epochs"
    and "1 \<le> (if iterations = 0 then int (len dt) div batch_size else iterations)"
  shows "snd (train eng dt dv batch_size epochs iterations report_steps eval_steps None
                validation_samples m) \<noteq> None
         \<and> length (steps (fst (train eng dt dv batch_size epochs iterations report_steps
                eval_steps None validation_samples m))) \<le> 1
         \<and> (batch_size \<noteq> 0 \<and> report_steps \<noteq> 0 \<and> next_train_batch dt batch_size 0 \<noteq> None \<longrightarrow>
              snd (train eng dt dv batch_size epochs iterations report_steps eval_steps None
                     validation_samples m) = Some TypeError
              \<and> steps (fst (train eng dt dv batch_size epochs iterations report_steps
                     eval_steps None validation_samples m)) = [(0, 0)])"
proof (cases "batch_size = 0")
  case True
  then show ?thesis
    by (simp add: train_def floordiv_def Let_def)
next
  case False
  let ?its = "if iterations = 0 then int (len dt) div batch_size else iterations"
  let ?step = "train_step eng dt dv batch_size ?its report_steps
                 eval_steps None (validation_samples div batch_size)"
  let ?st0 = "\<lparr>params = m, losses = [], num_tokens = 0, written = [], steps = []\<rparr>"
  obtain rest where rest: "epoch_iterations epochs ?its = (0, 0) # rest"
    using epoch_iterations_first[OF assms] by blast
  have eq: "train eng dt dv batch_size epochs iterations report_steps eval_steps None
              validation_samples m
            = train_loop ?step ((0, 0) # rest) ?st0"
    using False rest by (auto simp: train_def floordiv_def Let_def)
  obtain st' e where r: "?step (0, 0) ?st0 = (st', Some e)"
    using train_step_first_no_callback[of eng dt dv batch_size ?its report_steps eval_steps
        "validation_samples div batch_size" ?st0]
    by (cases "?step (0, 0) ?st0") auto
  show ?thesis
    using train_step_first_no_callback[of eng dt dv batch_size ?its report_steps eval_steps
        "validation_samples div batch_size" ?st0] False
    unfolding eq by (simp add: r)
qed

lemma train_zero_batch_size:
  "train eng dt dv 0 epochs iterations report_steps eval_steps eval_callback validation_samples m
   = (\<lparr>params = m, losses = [], num_tokens = 0, written = [], steps = []\<rparr>,
      Some ZeroDivisionError)"
  by (simp add: train_def floordiv_def Let_def)

lemma train_no_step:
  assumes "batch_size \<noteq> 0"
    and "epochs < 1 \<or> (if iterations = 0 then int (len dt) div batch_size else iterations) < 1"
  shows "train eng dt dv batch_size epochs iterations report_steps eval_steps eval_callback
           validation_samples m
         = (\<lparr>params = m, losses = [], num_tokens = 0, written = [], steps = []\<rparr>, None)"
  using assms
  by (auto simp: train_def floordiv_def Let_def epoch_iterations_empty)

text \<open>
  Claim C10, as the code has it. With \<open>eval_callback\<close> left at \<open>None\<close> there are three cases.
  Whenever a first step is run (at least one epoch and an effective iteration count of at
  least one), \<open>train\<close> raises before a second step begins; when the batch size and
  \<open>report_steps\<close> are not zero and the first batch is available, the exception is the
  \<open>TypeError\<close> of calling \<open>None\<close>, raised in the first step after its optimizer update. With
  a batch size of zero \<open>train\<close> raises \<open>ZeroDivisionError\<close> before the loops. With a non-zero
  batch size and no step to run, \<open>train\<close> returns normally, nothing done.
\<close>

theorem train_without_callback_fails:
  "(1 \<le> epochs \<and> 1 \<le> (if iterations = 0 then int (len dt) div batch_size else iterations) \<longrightarrow>
      snd (train eng dt dv batch_size epochs iterations report_steps eval_steps None
             validation_samples m) \<noteq> None
      \<and> length (steps (fst (train eng dt dv batch_size epochs iterations report_steps
             eval_steps None validation_samples m))) \<le> 1
      \<and> (batch_size \<noteq> 0 \<and> report_steps \<noteq> 0 \<and> next_train_batch dt batch_size 0 \<noteq> None \<longrightarrow>
           snd (train eng dt dv batch_size epochs iterations report_steps eval_steps None
                  validation_samples m) = Some TypeError
           \<and> steps (fst (train eng dt dv batch_size epochs iterations report_steps
                  eval_steps None validation_samples m)) = [(0, 0)]))
   \<and> (batch_size = 0 \<longrightarrow>
        train eng dt dv batch_size epochs iterations report_steps eval_steps None
          validation_samples m
        = (\<lparr>params = m, losses = [], num_tokens = 0, written = [], steps = []\<rparr>,
           Some ZeroDivisionError))
   \<and> (batch_size \<noteq> 0
        \<and> (epochs < 1
           \<or> (if iterations = 0 then int (len dt) div batch_size else iterations) < 1) \<longrightarrow>
        train eng dt dv batch_size epochs iterations report_steps eval_steps None
          validation_samples m
        = (\<lparr>params = m, losses = [], num_tokens = 0, written = [], steps = []\<rparr>, None))"
  using train_first_step_no_callback [of epochs iterations dt batch_size eng dv report_steps
      eval_steps validation_samples m]
    train_zero_batch_size [of eng dt dv epochs iterations report_steps eval_steps None
      validation_samples m]
    train_no_step [of batch_size epochs iterations dt eng dv report_steps eval_steps None
      validation_samples m]
  by blast

theorem train_without_callback_fails_witness:
  "snd (train counting_engine (unit_dataset 100) (unit_dataset 40) 4 1 0 10 100 None 40 0)
     = Some TypeError
   \<and> steps (fst (train counting_engine (unit_dataset 100) (unit_dataset 40) 4 1 0 10 100 None 40 0))
     = [(0, 0)]
   \<and> train counting_engine (unit_dataset 100) (unit_dataset 40) 0 1 0 10 100 None 40 0
     = (\<lparr>params = 0, losses = [], num_tokens = 0, written = [], steps = []\<rparr>,
        Some ZeroDivisionError)
   \<and> train counting_engine (unit_dataset 3) (unit_dataset 40) 4 1 0 10 100 None 40 0
     = (\<lparr>params = 0, losses = [], num_tokens = 0, written = [], steps = []\<rparr>, None)"
proof -
  have its: "1 \<le> (if (0::int) = 0 then int (len (unit_dataset 100)) div 4 else 0)"
    by (simp add: unit_dataset_def)
  have batch: "next_train_batch (unit_dataset 100) 4 0 \<noteq> None"
    by (simp add: unit_dataset_def)
  have none: "(if (0::int) = 0 then int (len (unit_dataset 3)) div 4 else 0) < 1"
    by (simp add: unit_dataset_def)
  from train_without_callback_fails
      [of 1 0 "unit_dataset 100" 4 counting_engine "unit_dataset 40" 10 100 40 0]
    train_without_callback_fails
      [of 1 0 "unit_dataset 100" 0 counting_engine "unit_dataset 40" 10 100 40 0]
    train_without_callback_fails
      [of 1 0 "unit_dataset 3" 4 counting_engine "unit_dataset 40" 10 100 40 0]
    its batch none
  show ?thesis by simp
qed

text \<open>
  The claim as stated covers every call. With a training set of 3 examples, batch size 4
  and \<open>iterations = 0\<close> no step is run, and \<open>train\<close> completes although the callback is
  \<open>None\<close>.
\<close>

theorem train_without_callback_completes:
  "train counting_engine (unit_dataset 3) (unit_dataset 40) 4 1 0 10 100 None 40 0
   = (\<lparr>params = 0, losses = [], num_tokens = 0, written = [], steps = []\<rparr>, None)"
  by code_simp


end
